theory Spec2Isabelle
  imports Complex_Main "HOL-Library.AList" "HOL-Library.Sublist"
begin

section \<open>Values and errors\<close>

text \<open>
  The payloads the program stores and exchanges are what Python's \<^verbatim>\<open>json\<close> module reads and
  writes: \<^verbatim>\<open>None\<close>, booleans, numbers, strings, lists and dicts with string keys. A dict
  is an association list in insertion order (Python dicts keep it, and \<^verbatim>\<open>json.dump\<close> /
  \<^verbatim>\<open>json.load\<close> preserve it); \<open>AList.update\<close> overwrites a key in place or appends a
  new one, as \<^verbatim>\<open>d[k] = v\<close> does, and \<open>AList.delete\<close> is \<^verbatim>\<open>del d[k]\<close>. Floats are
  idealised as reals.
\<close>

datatype json =
    JNull
  | JBool bool
  | JInt int
  | JFloat real
  | JStr string
  | JArr "json list"
  | JObj "(string \<times> json) list"

text \<open>Python truthiness (\<^verbatim>\<open>bool(x)\<close>), as used by \<^verbatim>\<open>if not x\<close>.\<close>

fun truthy :: "json \<Rightarrow> bool" where
  "truthy JNull = False"
| "truthy (JBool b) = b"
| "truthy (JInt i) = (i \<noteq> 0)"
| "truthy (JFloat r) = (r \<noteq> 0)"
| "truthy (JStr s) = (s \<noteq> [])"
| "truthy (JArr xs) = (xs \<noteq> [])"
| "truthy (JObj kvs) = (kvs \<noteq> [])"

text \<open>\<^verbatim>\<open>d.get(k)\<close>: the value, or \<^verbatim>\<open>None\<close> for a missing key.\<close>

definition dict_get :: "(string \<times> json) list \<Rightarrow> string \<Rightarrow> json" where
  "dict_get d k = (case map_of d k of None \<Rightarrow> JNull | Some v \<Rightarrow> v)"

text \<open>
  Errors are values. An error is an instance of a subclass of Python's \<^verbatim>\<open>Exception\<close>: its
  class and the text \<^verbatim>\<open>str(e)\<close> gives. Signals outside that hierarchy (interpreter exit,
  keyboard interrupt, task cancellation) are not part of the model.
\<close>

datatype exn_class =
    ValueError
  | TypeError
  | AttributeError
  | FileNotFoundError
  | JSONDecodeError
  | GitlabGetError nat
  | OtherError

datatype exn = Exn exn_class string

fun str_exn :: "exn \<Rightarrow> string" where
  "str_exn (Exn c m) = m"

section \<open>Operation store (operation\_store.py)\<close>

text \<open>
  The backing file \<^verbatim>\<open>operations.json\<close> (the path \<^verbatim>\<open>OPERATIONS_FILE\<close>) is the only state.
  Its text is represented by what \<^verbatim>\<open>json.load\<close> makes of it: the file is missing, or its
  text does not parse, or it parses to a value (which \<^verbatim>\<open>json.dump\<close> of that value writes).
  The counter \<open>writes\<close> counts the calls of \<^verbatim>\<open>_write_operations\<close>, so that "no write
  happened" can be stated.
\<close>

datatype file_content = Missing | Unparsable | Parsed json

record store =
  OPERATIONS_FILE :: file_content
  writes :: nat

text \<open>
  \<^verbatim>\<open>_read_operations\<close>: \<^verbatim>\<open>{}\<close> when the file does not exist or \<^verbatim>\<open>json.load\<close> raises,
  otherwise whatever the file holds.
\<close>

definition read_operations :: "store \<Rightarrow> json" where
  "read_operations s =
     (case OPERATIONS_FILE s of
        Missing \<Rightarrow> JObj []
      | Unparsable \<Rightarrow> JObj []
      | Parsed j \<Rightarrow> j)"

text \<open>\<^verbatim>\<open>_write_operations\<close>: the whole file is replaced by the dump of \<open>ops\<close>.\<close>

definition write_operations :: "json \<Rightarrow> store \<Rightarrow> store" where
  "write_operations ops s = s\<lparr>OPERATIONS_FILE := Parsed ops, writes := Suc (writes s)\<rparr>"

text \<open>
  \<^verbatim>\<open>get_operation\<close>: \<^verbatim>\<open>ops.get(op_id)\<close>. Only a dict has \<^verbatim>\<open>get\<close>; on any other value the
  attribute lookup raises.
\<close>

definition get_operation :: "string \<Rightarrow> store \<Rightarrow> exn + json" where
  "get_operation op_id s =
     (case read_operations s of
        JObj ops \<Rightarrow> Inr (dict_get ops op_id)
      | _ \<Rightarrow> Inl (Exn AttributeError ''object has no attribute 'get' ''))"

text \<open>
  \<^verbatim>\<open>set_operation\<close>: read, \<^verbatim>\<open>ops[op_id] = data\<close>, write back. Item assignment with a string
  index raises \<^verbatim>\<open>TypeError\<close> on every value that is not a dict, and then nothing is written.
\<close>

definition set_operation :: "string \<Rightarrow> json \<Rightarrow> store \<Rightarrow> exn + store" where
  "set_operation op_id data s =
     (case read_operations s of
        JObj ops \<Rightarrow> Inr (write_operations (JObj (AList.update op_id data ops)) s)
      | _ \<Rightarrow> Inl (Exn TypeError ''object does not support item assignment''))"

text \<open>\<^verbatim>\<open>needle in haystack\<close> on strings: a contiguous substring.\<close>

fun str_contains :: "string \<Rightarrow> string \<Rightarrow> bool" where
  "str_contains [] needle = (needle = [])"
| "str_contains (c # cs) needle = (prefix needle (c # cs) \<or> str_contains cs needle)"

text \<open>
  \<^verbatim>\<open>delete_operation\<close>: read; \<^verbatim>\<open>if op_id in ops: del ops[op_id]; write\<close>. On a dict the test
  is key membership. On a list it is element membership and on a string substring search, and
  a positive answer leads to \<^verbatim>\<open>del ops[op_id]\<close>, which raises \<^verbatim>\<open>TypeError\<close> there; the other
  values are not iterable, so the test itself raises.
\<close>

definition delete_operation :: "string \<Rightarrow> store \<Rightarrow> exn + store" where
  "delete_operation op_id s =
     (case read_operations s of
        JObj ops \<Rightarrow>
          (if op_id \<in> fst ` set ops
           then Inr (write_operations (JObj (AList.delete op_id ops)) s)
           else Inr s)
      | JArr xs \<Rightarrow>
          (if JStr op_id \<in> set xs
           then Inl (Exn TypeError ''list indices must be integers or slices, not str'')
           else Inr s)
      | JStr t \<Rightarrow>
          (if str_contains t op_id
           then Inl (Exn TypeError '''str' object does not support item deletion'')
           else Inr s)
      | _ \<Rightarrow> Inl (Exn TypeError ''argument is not iterable''))"

text \<open>
  The files the store itself produces: no file yet, or a dict. A file whose text does not
  parse is read as the empty dict, so it is admitted as well.
\<close>

fun store_ok :: "store \<Rightarrow> bool" where
  "store_ok s = (case OPERATIONS_FILE s of Parsed (JObj ops) \<Rightarrow> True | Parsed _ \<Rightarrow> False | _ \<Rightarrow> True)"

text \<open>The mapping a reader sees: operation id to payload.\<close>

definition stored :: "store \<Rightarrow> string \<Rightarrow> json option" where
  "stored s = (case read_operations s of JObj ops \<Rightarrow> map_of ops | _ \<Rightarrow> Map.empty)"

text \<open>A call of the store's writing interface, and a sequence of such calls.\<close>

datatype store_call = SetOp string json | DelOp string

fun call_id :: "store_call \<Rightarrow> string" where
  "call_id (SetOp k v) = k"
| "call_id (DelOp k) = k"

fun run_call :: "store_call \<Rightarrow> store \<Rightarrow> exn + store" where
  "run_call (SetOp k v) s = set_operation k v s"
| "run_call (DelOp k) s = delete_operation k s"

fun run_calls :: "store_call list \<Rightarrow> store \<Rightarrow> exn + store" where
  "run_calls [] s = Inr s"
| "run_calls (c # cs) s =
     (case run_call c s of Inl e \<Rightarrow> Inl e | Inr s' \<Rightarrow> run_calls cs s')"

section \<open>Strings\<close>

text \<open>
  Strings are lists of characters. The whitespace of \<^verbatim>\<open>str.strip()\<close> within ASCII: tab, line
  feed, vertical tab, form feed, carriage return, the four separators 0x1C to 0x1F, and space.
\<close>

definition is_space :: "char \<Rightarrow> bool" where
  "is_space c =
     (c \<in> set [CHR 0x09, CHR 0x0A, CHR 0x0B, CHR 0x0C, CHR 0x0D,
                CHR 0x1C, CHR 0x1D, CHR 0x1E, CHR 0x1F, CHR 0x20])"

definition lstrip :: "string \<Rightarrow> string" where
  "lstrip s = dropWhile is_space s"

definition rstrip :: "string \<Rightarrow> string" where
  "rstrip s = rev (dropWhile is_space (rev s))"

definition strip :: "string \<Rightarrow> string" where
  "strip s = rstrip (lstrip s)"

text \<open>\<^verbatim>\<open>s.startswith(p)\<close>, \<^verbatim>\<open>s.endswith(p)\<close>, \<^verbatim>\<open>s[n:]\<close> and \<^verbatim>\<open>s[:-n]\<close> (for \<open>n > 0\<close>).\<close>

definition startswith :: "string \<Rightarrow> string \<Rightarrow> bool" where
  "startswith s p = (take (length p) s = p)"

definition endswith :: "string \<Rightarrow> string \<Rightarrow> bool" where
  "endswith s p = (length p \<le> length s \<and> drop (length s - length p) s = p)"

definition slice_from :: "nat \<Rightarrow> string \<Rightarrow> string" where
  "slice_from n s = drop n s"

definition slice_to_minus :: "nat \<Rightarrow> string \<Rightarrow> string" where
  "slice_to_minus n s = take (length s - n) s"

section \<open>Agents: configuration and results (agents/base\_agent.py)\<close>

text \<open>
  The environment variables the constructors read with \<^verbatim>\<open>os.getenv\<close>: \<open>None\<close> when a
  variable is not set.
\<close>

record config =
  GITLAB_URL :: "string option"
  GITLAB_TOKEN :: "string option"
  OPENAI_API_KEY :: "string option"
  OPENAI_MODEL :: "string option"
  GOOGLE_PROJECT_ID :: "string option"

text \<open>\<^verbatim>\<open>not v\<close> on the result of \<^verbatim>\<open>os.getenv\<close>: unset, or set to the empty string.\<close>

fun unset :: "string option \<Rightarrow> bool" where
  "unset None = True"
| "unset (Some v) = (v = [])"

text \<open>
  What \<^verbatim>\<open>BaseAgent.__init__\<close> leaves in the instance. A missing \<^verbatim>\<open>OPENAI_API_KEY\<close> prints a
  warning (recorded in \<open>warned\<close>) and nothing is raised. \<open>now\<close> is the reading of the clock.
\<close>

record base_agent =
  openai_api_key :: "string option"
  openai_model :: string
  warned :: bool
  last_request_time :: real
  min_request_interval :: real

definition BaseAgent_init :: "config \<Rightarrow> real \<Rightarrow> base_agent" where
  "BaseAgent_init cfg now =
     \<lparr>openai_api_key = OPENAI_API_KEY cfg,
      openai_model = (case OPENAI_MODEL cfg of None \<Rightarrow> ''gpt-3.5-turbo'' | Some m \<Rightarrow> m),
      warned = unset (OPENAI_API_KEY cfg),
      last_request_time = now,
      min_request_interval = 1.0\<rparr>"

text \<open>The two result shapes every agent returns, and the dict that is stored for them.\<close>

record result =
  status :: string
  message :: string
  data :: json

definition format_error :: "exn \<Rightarrow> result" where
  "format_error e = \<lparr>status = ''error'', message = str_exn e, data = JNull\<rparr>"

definition format_success :: "string \<Rightarrow> json \<Rightarrow> result" where
  "format_success msg d = \<lparr>status = ''success'', message = msg, data = d\<rparr>"

definition result_json :: "result \<Rightarrow> json" where
  "result_json r =
     JObj [(''status'', JStr (status r)), (''message'', JStr (message r)), (''data'', data r)]"

text \<open>
  \<^verbatim>\<open>_make_openai_request\<close>: the credential is checked here, at the first use, and only then is
  the completion service called. \<open>completion\<close> stands for the service: given the model, the
  optional system prompt and the prompt it returns the text or raises. The text is stripped.
\<close>

definition make_openai_request ::
  "(string \<Rightarrow> string option \<Rightarrow> string \<Rightarrow> exn + string) \<Rightarrow> base_agent \<Rightarrow>
     string \<Rightarrow> string option \<Rightarrow> exn + string" where
  "make_openai_request completion agent prompt system_prompt =
     (if unset (openai_api_key agent) then Inl (Exn ValueError ''OPENAI_API_KEY is not set.'')
      else (case completion (openai_model agent) system_prompt prompt of
              Inl e \<Rightarrow> Inl e
            | Inr text \<Rightarrow> Inr (strip text)))"

section \<open>Agent constructors\<close>

text \<open>
  The GitLab client object is built from the URL and the token without contacting the host,
  so the model keeps the two strings. The two Google Cloud clients of the deployment agent
  look for credentials when they are built; \<open>clients\<close> is the outcome of building them.
\<close>

record gitlab_agent =
  base :: base_agent
  gitlab_url :: string
  gitlab_token :: string

record deployment_agent =
  dbase :: base_agent
  dgitlab_url :: string
  dgitlab_token :: string
  project_id :: string

definition CodeAnalysisAgent_init :: "config \<Rightarrow> real \<Rightarrow> exn + gitlab_agent" where
  "CodeAnalysisAgent_init cfg now =
     (let b = BaseAgent_init cfg now in
      if unset (GITLAB_URL cfg) \<or> unset (GITLAB_TOKEN cfg)
      then Inl (Exn ValueError ''GitLab configuration is missing'')
      else Inr \<lparr>base = b, gitlab_url = the (GITLAB_URL cfg), gitlab_token = the (GITLAB_TOKEN cfg)\<rparr>)"

definition ValidationAgent_init :: "config \<Rightarrow> real \<Rightarrow> exn + gitlab_agent" where
  "ValidationAgent_init cfg now =
     (let b = BaseAgent_init cfg now in
      if unset (GITLAB_URL cfg) \<or> unset (GITLAB_TOKEN cfg)
      then Inl (Exn ValueError ''GitLab configuration is missing'')
      else Inr \<lparr>base = b, gitlab_url = the (GITLAB_URL cfg), gitlab_token = the (GITLAB_TOKEN cfg)\<rparr>)"

definition DeploymentAgent_init :: "config \<Rightarrow> real \<Rightarrow> exn option \<Rightarrow> exn + deployment_agent" where
  "DeploymentAgent_init cfg now clients =
     (let b = BaseAgent_init cfg now in
      if unset (GITLAB_URL cfg) \<or> unset (GITLAB_TOKEN cfg)
      then Inl (Exn ValueError ''GitLab configuration is missing'')
      else if unset (GOOGLE_PROJECT_ID cfg)
      then Inl (Exn ValueError ''Google Cloud project ID is missing'')
      else (case clients of
              Some e \<Rightarrow> Inl e
            | None \<Rightarrow>
                Inr \<lparr>dbase = b, dgitlab_url = the (GITLAB_URL cfg),
                     dgitlab_token = the (GITLAB_TOKEN cfg),
                     project_id = the (GOOGLE_PROJECT_ID cfg)\<rparr>))"

definition PipelineAgent_init :: "config \<Rightarrow> real \<Rightarrow> exn + base_agent" where
  "PipelineAgent_init cfg now = Inr (BaseAgent_init cfg now)"

definition PipelineGenAgent_init :: "config \<Rightarrow> real \<Rightarrow> exn + base_agent" where
  "PipelineGenAgent_init cfg now = Inr (BaseAgent_init cfg now)"

section \<open>Operation lifecycle (main.py)\<close>

text \<open>
  The dict the review task stores. The key \<^verbatim>\<open>summary\<close> is absent from the dict written when
  the analysis failed.
\<close>

record review =
  review_id :: string
  review_status :: string
  review_message :: string
  review_findings :: "json list"
  review_recommendations :: "json list"
  review_score :: json
  review_summary :: "string option"

definition review_json :: "review \<Rightarrow> json" where
  "review_json r =
     JObj ([(''review_id'', JStr (review_id r)),
            (''status'', JStr (review_status r)),
            (''message'', JStr (review_message r)),
            (''findings'', JArr (review_findings r)),
            (''recommendations'', JArr (review_recommendations r)),
            (''score'', review_score r)] @
           (case review_summary r of None \<Rightarrow> [] | Some t \<Rightarrow> [(''summary'', JStr t)]))"

text \<open>
  What a background task hands to \<^verbatim>\<open>set_operation\<close>: the result of an agent's
  \<^verbatim>\<open>execute\<close>, or the review dict.
\<close>

datatype task_payload = AgentResult result | ReviewResult review

fun payload_json :: "task_payload \<Rightarrow> json" where
  "payload_json (AgentResult r) = result_json r"
| "payload_json (ReviewResult r) = review_json r"

datatype kind = Analyze | Generate | Validate | Deploy | Review

fun kind_name :: "kind \<Rightarrow> string" where
  "kind_name Analyze = ''analyze''"
| "kind_name Generate = ''generate''"
| "kind_name Validate = ''validate''"
| "kind_name Deploy = ''deploy''"
| "kind_name Review = ''review''"

text \<open>
  The operation id: the kind and the time of the request as \<^verbatim>\<open>%Y%m%d_%H%M%S\<close>
  (\<open>stamp\<close> is that text).
\<close>

definition operation_id :: "kind \<Rightarrow> string \<Rightarrow> string" where
  "operation_id k stamp = kind_name k @ ''_'' @ stamp"

text \<open>
  The server: the operation store and the ids of the background tasks that were added and
  have not finished.
\<close>

record server =
  ops_store :: store
  background :: "string list"

datatype 'a http = Return 'a | HTTPException nat string | Unhandled exn

text \<open>
  \<^verbatim>\<open>POST /analyze\<close>: the agent is built, the task is added, and the acknowledgement is
  returned; any error becomes status 500. The store is not touched.
\<close>

definition analyze_repository :: "config \<Rightarrow> real \<Rightarrow> string \<Rightarrow> server \<Rightarrow> json http \<times> server" where
  "analyze_repository cfg now stamp sv =
     (let op_id = operation_id Analyze stamp in
      case CodeAnalysisAgent_init cfg now of
        Inl e \<Rightarrow> (HTTPException 500 (str_exn e), sv)
      | Inr agent \<Rightarrow>
          (Return (JObj [(''status'', JStr ''processing''),
                         (''message'', JStr ''Repository analysis started''),
                         (''operation_id'', JStr op_id)]),
           sv\<lparr>background := background sv @ [op_id]\<rparr>))"

text \<open>
  \<^verbatim>\<open>GET /status/{operation_id}\<close>: a falsy value from the store (\<^verbatim>\<open>None\<close> for an id that is
  not there) is answered with 404. An error raised by the store is not handled here.
\<close>

definition get_operation_status :: "string \<Rightarrow> server \<Rightarrow> json http" where
  "get_operation_status op_id sv =
     (case get_operation op_id (ops_store sv) of
        Inl e \<Rightarrow> Unhandled e
      | Inr op \<Rightarrow>
          (if \<not> truthy op then HTTPException 404 ''Operation not found'' else Return op))"

text \<open>
  The events that change the server: a request of some kind is accepted and its task added
  (as \<open>analyze_repository\<close> does; the other four handlers add their task the same way and
  do not write to the store either), and a background task finishes, which is its one call
  of \<^verbatim>\<open>set_operation\<close>.
\<close>

datatype event = Schedule kind string | Finish string task_payload

fun step :: "event \<Rightarrow> server \<Rightarrow> server" where
  "step (Schedule k stamp) sv = sv\<lparr>background := background sv @ [operation_id k stamp]\<rparr>"
| "step (Finish op_id p) sv =
     (if op_id \<in> set (background sv)
      then (case set_operation op_id (payload_json p) (ops_store sv) of
              Inl e \<Rightarrow> sv\<lparr>background := remove1 op_id (background sv)\<rparr>
            | Inr s' \<Rightarrow> sv\<lparr>ops_store := s', background := remove1 op_id (background sv)\<rparr>)
      else sv)"

fun run :: "event list \<Rightarrow> server \<Rightarrow> server" where
  "run [] sv = sv"
| "run (e # es) sv = run es (step e sv)"

text \<open>The ids for which the trace has a task finishing.\<close>

fun finish_id :: "event \<Rightarrow> string option" where
  "finish_id (Schedule k stamp) = None"
| "finish_id (Finish op_id p) = Some op_id"

definition fresh_server :: server where
  "fresh_server = \<lparr>ops_store = \<lparr>OPERATIONS_FILE = Missing, writes = 0\<rparr>, background = []\<rparr>"

section \<open>Pipeline generation with the completion service (agents/pipeline\_gen\_agent.py)\<close>


section \<open>Repository analysis (agents/code\_analysis\_agent.py)\<close>

text \<open>
  \<^verbatim>\<open>str.lower()\<close> on ASCII letters; other characters are left as they are.
\<close>

definition lower_char :: "char \<Rightarrow> char" where
  "lower_char c =
     (case map_of (zip ''ABCDEFGHIJKLMNOPQRSTUVWXYZ'' ''abcdefghijklmnopqrstuvwxyz'') c of
        None \<Rightarrow> c
      | Some d \<Rightarrow> d)"

definition lower :: "string \<Rightarrow> string" where
  "lower s = map lower_char s"

text \<open>\<^verbatim>\<open>file.split(".")[-1].lower()\<close>: what follows the last dot, or the whole path.\<close>

definition file_ext :: "string \<Rightarrow> string" where
  "file_ext file = lower (rev (takeWhile (\<lambda>c. c \<noteq> CHR ''.'') (rev file)))"

text \<open>
  The manifests \<^verbatim>\<open>_analyze_dependencies\<close> looks for, in the order of the dict literal.
\<close>

definition dependency_files :: "(string \<times> string list) list" where
  "dependency_files =
     [(''python'', [''requirements.txt'', ''setup.py'', ''Pipfile'']),
      (''node'', [''package.json'']),
      (''java'', [''pom.xml'', ''build.gradle'']),
      (''ruby'', [''Gemfile'']),
      (''php'', [''composer.json''])]"

text \<open>
  The inner loop: the first file of an ecosystem that can be fetched and decoded; any error
  of a fetch moves on to the next file. \<open>fetch\<close> stands for
  \<^verbatim>\<open>project.files.get(file, branch).decode().decode()\<close>.
\<close>

fun first_fetched :: "(string \<Rightarrow> exn + string) \<Rightarrow> string list \<Rightarrow> string option" where
  "first_fetched fetch [] = None"
| "first_fetched fetch (file # files) =
     (case fetch file of
        Inr content \<Rightarrow> Some content
      | Inl e \<Rightarrow> first_fetched fetch files)"

fun dependencies_loop ::
  "(string \<Rightarrow> exn + string) \<Rightarrow> (string \<times> string list) list \<Rightarrow> (string \<times> string) list \<Rightarrow>
     (string \<times> string) list" where
  "dependencies_loop fetch [] dependencies = dependencies"
| "dependencies_loop fetch ((lang, files) # rest) dependencies =
     dependencies_loop fetch rest
       (case first_fetched fetch files of
          None \<Rightarrow> dependencies
        | Some content \<Rightarrow> AList.update lang content dependencies)"

definition analyze_dependencies :: "(string \<Rightarrow> exn + string) \<Rightarrow> (string \<times> string) list" where
  "analyze_dependencies fetch = dependencies_loop fetch dependency_files []"

text \<open>The counting loop of \<^verbatim>\<open>_detect_language\<close>.\<close>

fun count_extensions :: "string list \<Rightarrow> (string \<times> nat) list \<Rightarrow> (string \<times> nat) list" where
  "count_extensions [] extensions = extensions"
| "count_extensions (file # files) extensions =
     count_extensions files
       (AList.update (file_ext file)
          ((case map_of extensions (file_ext file) of None \<Rightarrow> 0 | Some n \<Rightarrow> n) + 1)
          extensions)"

text \<open>
  \<^verbatim>\<open>max(items, key=...)\<close> keeps the first item whose key is largest: a later item replaces
  the best so far only when its key is strictly greater.
\<close>

fun max_by :: "('a \<Rightarrow> nat) \<Rightarrow> 'a \<Rightarrow> 'a list \<Rightarrow> 'a" where
  "max_by key best [] = best"
| "max_by key best (x # xs) = max_by key (if key best < key x then x else best) xs"

definition ext_to_lang :: "(string \<times> string) list" where
  "ext_to_lang =
     [(''py'', ''python''), (''js'', ''javascript''), (''ts'', ''typescript''),
      (''java'', ''java''), (''rb'', ''ruby''), (''php'', ''php''), (''go'', ''go'')]"

definition detect_language :: "string list \<Rightarrow> (string \<times> string) list \<Rightarrow> string" where
  "detect_language files dependencies =
     (case dependencies of
        (lang, content) # rest \<Rightarrow> lang
      | [] \<Rightarrow>
          (case count_extensions files [] of
             [] \<Rightarrow> ''unknown''
           | item # items \<Rightarrow>
               (let most_common = fst (max_by snd item items)
                in case map_of ext_to_lang most_common of
                     None \<Rightarrow> ''unknown''
                   | Some lang \<Rightarrow> lang)))"



section \<open>The analysis task (agents/code\_analysis\_agent.py, \<^verbatim>\<open>execute\<close>)\<close>

text \<open>
  \<^verbatim>\<open>try: body except Exception as e: handler(e)\<close>, and raising an error built from a caught
  one.
\<close>

definition try_except :: "exn + 'a \<Rightarrow> (exn \<Rightarrow> exn + 'a) \<Rightarrow> exn + 'a" where
  "try_except body handler = (case body of Inl e \<Rightarrow> handler e | Inr v \<Rightarrow> Inr v)"

definition bind :: "exn + 'a \<Rightarrow> ('a \<Rightarrow> exn + 'b) \<Rightarrow> exn + 'b" where
  "bind m f = (case m of Inl e \<Rightarrow> Inl e | Inr v \<Rightarrow> f v)"

text \<open>
  \<^verbatim>\<open>s.split(sep)\<close> for a non-empty separator, scanning from the left: \<open>skip\<close> counts the
  characters of a separator just found that are still to be passed over, \<open>cur\<close> is the
  piece being read, reversed. \<^verbatim>\<open>sep.join(parts)\<close> is \<open>py_join\<close>.
\<close>

fun split_from :: "string \<Rightarrow> nat \<Rightarrow> string \<Rightarrow> string \<Rightarrow> string list" where
  "split_from sep skip cur [] = [rev cur]"
| "split_from sep (Suc skip) cur (c # cs) = split_from sep skip cur cs"
| "split_from sep 0 cur (c # cs) =
     (if prefix sep (c # cs) then rev cur # split_from sep (length sep - 1) [] cs
      else split_from sep 0 (c # cur) cs)"

definition py_split :: "string \<Rightarrow> string \<Rightarrow> string list" where
  "py_split sep s = split_from sep 0 [] s"

fun py_join :: "string \<Rightarrow> string list \<Rightarrow> string" where
  "py_join sep [] = []"
| "py_join sep [x] = x"
| "py_join sep (x # y # ys) = x @ sep @ py_join sep (y # ys)"

text \<open>
  A value of the context dict: the key is absent, or present with \<^verbatim>\<open>None\<close>, or present with
  a value of the type the docstring of \<^verbatim>\<open>execute\<close> names.
\<close>

datatype 'a field = Absent | PyNone | Val 'a

text \<open>\<^verbatim>\<open>context.get(key)\<close> and \<^verbatim>\<open>context.get(key, default)\<close>.\<close>

fun ctx_get :: "'a field \<Rightarrow> 'a option" where
  "ctx_get Absent = None"
| "ctx_get PyNone = None"
| "ctx_get (Val v) = Some v"

fun ctx_get_default :: "'a field \<Rightarrow> 'a \<Rightarrow> 'a option" where
  "ctx_get_default Absent d = Some d"
| "ctx_get_default PyNone d = None"
| "ctx_get_default (Val v) d = Some v"

record analysis_context =
  ctx_repo_url :: "string field"
  ctx_branch :: "string field"

text \<open>
  The source-control host, as the agents use it: looking a project up, listing its tree,
  fetching and decoding a file. Each call returns or raises. An entry of the tree has a path
  and a type (\<^verbatim>\<open>blob\<close> or \<^verbatim>\<open>tree\<close>).
\<close>

record tree_item =
  item_path :: string
  item_type :: string

record 'p gitlab =
  projects_get :: "string \<Rightarrow> exn + 'p"
  repository_tree :: "'p \<Rightarrow> string option \<Rightarrow> exn + tree_item list"
  files_get :: "'p \<Rightarrow> string \<Rightarrow> string option \<Rightarrow> exn + string"

text \<open>
  \<^verbatim>\<open>_extract_project_path\<close>: every error inside, the one it raises itself included, is raised
  again as a \<^verbatim>\<open>ValueError\<close> with a prefix.
\<close>

definition extract_project_path :: "string \<Rightarrow> exn + string" where
  "extract_project_path repo_url =
     try_except
       (let path_parts = py_split ''/'' (last (py_split ''//'' repo_url)) in
        if length path_parts < 2
        then Inl (Exn ValueError (''Invalid GitLab URL format: '' @ repo_url))
        else
          (let path_parts = filter (\<lambda>p. p \<noteq> []) (tl path_parts);
               project_path = py_join ''/'' path_parts
           in Inr (if endswith project_path ''.git'' then slice_to_minus 4 project_path
                   else project_path)))
       (\<lambda>e. Inl (Exn ValueError (''Error parsing GitLab URL: '' @ str_exn e)))"

record repo_structure =
  structure_files :: "string list"
  structure_directories :: "string list"

definition analyze_repo_structure :: "'p gitlab \<Rightarrow> 'p \<Rightarrow> string option \<Rightarrow> exn + repo_structure" where
  "analyze_repo_structure gl project branch =
     try_except
       (bind (repository_tree gl project branch) (\<lambda>items.
          Inr \<lparr>structure_files = map item_path items,
               structure_directories = map item_path (filter (\<lambda>i. item_type i = ''tree'') items)\<rparr>))
       (\<lambda>e. Inl (Exn OtherError (''Error analyzing repository structure: '' @ str_exn e)))"

text \<open>\<^verbatim>\<open>_get_build_steps\<close>: a table with a default.\<close>

definition get_build_steps :: "string \<Rightarrow> string list" where
  "get_build_steps language =
     (case map_of
        [(''python'', [''install dependencies'', ''build wheel'']),
         (''javascript'', [''install dependencies'', ''build assets'']),
         (''typescript'', [''install dependencies'', ''compile typescript'', ''build assets'']),
         (''java'', [''install dependencies'', ''compile'', ''package'']),
         (''ruby'', [''install dependencies'', ''build gem'']),
         (''php'', [''install dependencies'', ''build'']),
         (''go'', [''install dependencies'', ''build binary''])] language of
        None \<Rightarrow> [''install dependencies'', ''build'']
      | Some steps \<Rightarrow> steps)"

definition json_strs :: "string list \<Rightarrow> json" where
  "json_strs xs = JArr (map JStr xs)"

text \<open>\<^verbatim>\<open>_generate_analysis\<close>, returning the dict it builds.\<close>

definition generate_analysis :: "repo_structure \<Rightarrow> (string \<times> string) list \<Rightarrow> json" where
  "generate_analysis st dependencies =
     (let language = detect_language (structure_files st) dependencies;
          has_dockerfile = (''Dockerfile'' \<in> set (structure_files st));
          has_tests = (\<exists>f \<in> set (structure_files st). str_contains (lower f) ''test'');
          build_steps = get_build_steps language;
          test_steps = (if has_tests then [''run tests''] else []);
          deploy_steps = [''deploy to Cloud Run'']
      in JObj [(''language'', JStr language),
               (''has_dockerfile'', JBool has_dockerfile),
               (''has_tests'', JBool has_tests),
               (''build_steps'', json_strs build_steps),
               (''test_steps'', json_strs test_steps),
               (''deploy_steps'', json_strs deploy_steps)])"

text \<open>
  The body of \<^verbatim>\<open>CodeAnalysisAgent.execute\<close> (what stands inside its \<^verbatim>\<open>try\<close>), and
  \<^verbatim>\<open>execute\<close> itself. A \<^verbatim>\<open>GitlabGetError\<close> of the project lookup is turned into a
  \<^verbatim>\<open>ValueError\<close>; any other error of the lookup goes to the outer handler as it is.
\<close>

definition get_project :: "'p gitlab \<Rightarrow> string \<Rightarrow> string \<Rightarrow> exn + 'p" where
  "get_project gl repo_url project_path =
     (case projects_get gl project_path of
        Inr project \<Rightarrow> Inr project
      | Inl (Exn (GitlabGetError code) msg) \<Rightarrow>
          (if code = 404
           then Inl (Exn ValueError (''Repository not found: '' @ repo_url @
                  ''. Please check if the URL is correct and you have access to it.''))
           else Inl (Exn ValueError (''GitLab API error: '' @ msg)))
      | Inl e \<Rightarrow> Inl e)"

definition analysis_body :: "'p gitlab \<Rightarrow> analysis_context \<Rightarrow> exn + result" where
  "analysis_body gl context =
     (let repo_url = ctx_get (ctx_repo_url context);
          branch = ctx_get_default (ctx_branch context) ''main''
      in if unset repo_url then Inl (Exn ValueError ''Repository URL is required'')
         else
           bind (extract_project_path (the repo_url)) (\<lambda>project_path.
           bind (get_project gl (the repo_url) project_path) (\<lambda>project.
           bind (analyze_repo_structure gl project branch) (\<lambda>repo_structure.
           (let dependencies = analyze_dependencies (\<lambda>file. files_get gl project file branch);
                analysis = generate_analysis repo_structure dependencies
            in Inr (format_success ''Repository analysis completed''
                 (JObj [(''structure'',
                           JObj [(''files'', json_strs (structure_files repo_structure)),
                                 (''directories'', json_strs (structure_directories repo_structure))]),
                        (''dependencies'', JObj (map (\<lambda>(lang, text). (lang, JStr text)) dependencies)),
                        (''analysis'', analysis)])))))))"

definition analysis_execute :: "'p gitlab \<Rightarrow> analysis_context \<Rightarrow> exn + result" where
  "analysis_execute gl context =
     try_except (analysis_body gl context) (\<lambda>e. Inr (format_error e))"

section \<open>The review task (main.py, \<^verbatim>\<open>run_review\<close>)\<close>

text \<open>
  The collaborators of the review besides the host: the completion service, which may answer
  differently from call to call (it is given the prompts submitted before), and the two
  functions of the \<^verbatim>\<open>json\<close> module, \<^verbatim>\<open>loads\<close> (\<open>None\<close> for a \<^verbatim>\<open>JSONDecodeError\<close>) and
  \<^verbatim>\<open>dumps\<close>.
\<close>

record collaborators =
  openai :: "string list \<Rightarrow> string \<Rightarrow> string option \<Rightarrow> string \<Rightarrow> exn + string"
  json_loads :: "string \<Rightarrow> json option"
  json_dumps :: "json \<Rightarrow> string"

record review_request =
  req_repo_url :: string
  req_branch :: "string option"
  req_focus_areas :: "string list option"

text \<open>
  The local variables of the loop, under their names, and \<open>submitted\<close>: the prompts handed
  to \<^verbatim>\<open>_call_openai\<close> so far, in order.
\<close>

record review_state =
  findings :: "json list"
  recommendations :: "json list"
  total_score :: json
  files_reviewed :: nat
  openai_failed :: bool
  openai_error_message :: "string option"
  submitted :: "string list"

definition initial_review_state :: review_state where
  "initial_review_state =
     \<lparr>findings = [], recommendations = [], total_score = JInt 0, files_reviewed = 0,
      openai_failed = False, openai_error_message = None, submitted = []\<rparr>"

text \<open>
  \<^verbatim>\<open>_call_openai\<close> hands the prompt to the queue, whose consumer calls
  \<^verbatim>\<open>_make_openai_request\<close> and passes the text or the error back.
\<close>

definition call_openai :: "collaborators \<Rightarrow> base_agent \<Rightarrow> string list \<Rightarrow> string \<Rightarrow> exn + string" where
  "call_openai co agent earlier prompt =
     make_openai_request (openai co earlier) agent prompt None"

definition nl :: string where
  "nl = [CHR 0x0A]"

definition dq :: string where
  "dq = [CHR 0x22]"

text \<open>The prompt of one file. Joining raises when \<^verbatim>\<open>focus_areas\<close> is \<^verbatim>\<open>None\<close>.\<close>

definition review_prompt :: "string \<Rightarrow> string list option \<Rightarrow> string \<Rightarrow> exn + string" where
  "review_prompt path focus_areas text =
     (case focus_areas of
        None \<Rightarrow> Inl (Exn TypeError ''can only join an iterable'')
      | Some areas \<Rightarrow>
          Inr (py_join nl
            [''Review this code file ('' @ path @ '') for:'',
             ''1. Code quality and best practices'',
             ''2. Potential bugs or issues'',
             ''3. Security concerns'',
             ''4. Performance improvements'',
             ''5. Maintainability'',
             [],
             ''Focus areas: '' @ py_join '', '' areas,
             [],
             ''Provide the review strictly as a valid JSON object with the following keys: '' @
               dq @ ''findings'' @ dq @ '' (list of strings), '' @
               dq @ ''recommendations'' @ dq @ '' (list of strings), and '' @
               dq @ ''score'' @ dq @ '' (number between 0 and 10).'',
             [],
             ''Code:'',
             take 2000 text @ ''  # Limit content length'',
             []]))"

text \<open>
  \<^verbatim>\<open>list.extend(v)\<close> for a value \<open>v\<close> of a parsed review: the elements of a list, the
  characters of a string, the keys of a dict; anything else is not iterable.
\<close>

fun iterate :: "json \<Rightarrow> exn + json list" where
  "iterate (JArr xs) = Inr xs"
| "iterate (JStr s) = Inr (map (\<lambda>c. JStr [c]) s)"
| "iterate (JObj kvs) = Inr (map (\<lambda>kv. JStr (fst kv)) kvs)"
| "iterate v = Inl (Exn TypeError ''object is not iterable'')"

text \<open>
  \<^verbatim>\<open>total_score + v\<close>: numbers add (\<^verbatim>\<open>True\<close> and \<^verbatim>\<open>False\<close> count as 1 and 0, and a float on
  either side gives a float); anything else raises.
\<close>

fun as_number :: "json \<Rightarrow> (int + real) option" where
  "as_number (JInt i) = Some (Inl i)"
| "as_number (JBool b) = Some (Inl (if b then 1 else 0))"
| "as_number (JFloat r) = Some (Inr r)"
| "as_number v = None"

fun number_real :: "int + real \<Rightarrow> real" where
  "number_real (Inl i) = real_of_int i"
| "number_real (Inr r) = r"

definition py_add :: "json \<Rightarrow> json \<Rightarrow> exn + json" where
  "py_add a b =
     (case (as_number a, as_number b) of
        (Some (Inl i), Some (Inl j)) \<Rightarrow> Inr (JInt (i + j))
      | (Some x, Some y) \<Rightarrow> Inr (JFloat (number_real x + number_real y))
      | _ \<Rightarrow> Inl (Exn TypeError ''unsupported operand type(s) for +=''))"

text \<open>\<^verbatim>\<open>d.get(key, default)\<close> on a parsed review; only a dict has \<^verbatim>\<open>get\<close>.\<close>

definition json_get :: "json \<Rightarrow> string \<Rightarrow> json \<Rightarrow> exn + json" where
  "json_get d key dflt =
     (case d of
        JObj kvs \<Rightarrow> Inr (case map_of kvs key of None \<Rightarrow> dflt | Some v \<Rightarrow> v)
      | _ \<Rightarrow> Inl (Exn AttributeError ''object has no attribute 'get' ''))"

text \<open>
  The four statements after \<^verbatim>\<open>json.loads\<close>. Each changes the state before the next one
  runs, so an error in a later one leaves the earlier changes in place; the result is the
  state and the error, if any.
\<close>

definition accumulate :: "json \<Rightarrow> review_state \<Rightarrow> review_state \<times> exn option" where
  "accumulate review_data st =
     (case bind (json_get review_data ''findings'' (JArr [])) iterate of
        Inl e \<Rightarrow> (st, Some e)
      | Inr fs \<Rightarrow>
          (let st1 = st\<lparr>findings := findings st @ fs\<rparr> in
           case bind (json_get review_data ''recommendations'' (JArr [])) iterate of
             Inl e \<Rightarrow> (st1, Some e)
           | Inr rs \<Rightarrow>
               (let st2 = st1\<lparr>recommendations := recommendations st1 @ rs\<rparr> in
                case bind (json_get review_data ''score'' (JInt 0)) (py_add (total_score st2)) of
                  Inl e \<Rightarrow> (st2, Some e)
                | Inr new_total \<Rightarrow>
                    (st2\<lparr>total_score := new_total, files_reviewed := Suc (files_reviewed st2)\<rparr>,
                     None))))"

definition error_finding :: "string \<Rightarrow> string \<Rightarrow> string \<Rightarrow> json" where
  "error_finding severity description location =
     JObj [(''type'', JStr ''error''), (''severity'', JStr severity),
           (''description'', JStr description), (''location'', JStr location)]"

text \<open>
  \<open>file_prompt\<close> is the start of the loop body: the file is fetched and the prompt built.
  \<open>review_file\<close> is one pass of the loop body for the file at \<open>path\<close>; the flag says whether the loop is left
  (\<^verbatim>\<open>break\<close>). Fetching the file or building the prompt may raise: that is the outer handler
  of the body, a finding of severity medium. An error of the completion call, or of the
  statements that use the parsed review, is the middle handler: the failure is noted and the
  loop is left. A review that does not parse is the inner handler, a finding of severity low.
\<close>

definition file_prompt :: "(string \<Rightarrow> exn + string) \<Rightarrow> review_request \<Rightarrow> string \<Rightarrow> exn + string" where
  "file_prompt fetch request path =
     bind (fetch path) (review_prompt path (req_focus_areas request))"

definition review_file ::
  "collaborators \<Rightarrow> base_agent \<Rightarrow> (string \<Rightarrow> exn + string) \<Rightarrow> review_request \<Rightarrow>
     string \<Rightarrow> review_state \<Rightarrow> review_state \<times> bool" where
  "review_file co agent fetch request path st =
     (case file_prompt fetch request path of
        Inl e \<Rightarrow>
          (st\<lparr>findings := findings st @
             [error_finding ''medium'' (''Error reviewing '' @ path @ '': '' @ str_exn e) path]\<rparr>,
           False)
      | Inr prompt \<Rightarrow>
          (let st1 = st\<lparr>submitted := submitted st @ [prompt]\<rparr> in
           case call_openai co agent (submitted st) prompt of
             Inl oe \<Rightarrow>
               (st1\<lparr>openai_failed := True, openai_error_message := Some (str_exn oe)\<rparr>, True)
           | Inr review \<Rightarrow>
               (case json_loads co review of
                  None \<Rightarrow>
                    (st1\<lparr>findings := findings st1 @
                       [error_finding ''low''
                          (''Failed to parse review for '' @ path @
                           '' due to invalid JSON response from AI.'') path]\<rparr>,
                     False)
                | Some review_data \<Rightarrow>
                    (case accumulate review_data st1 of
                       (st2, None) \<Rightarrow> (st2, False)
                     | (st2, Some oe) \<Rightarrow>
                         (st2\<lparr>openai_failed := True, openai_error_message := Some (str_exn oe)\<rparr>,
                          True)))))"

fun review_loop ::
  "collaborators \<Rightarrow> base_agent \<Rightarrow> (string \<Rightarrow> exn + string) \<Rightarrow> review_request \<Rightarrow>
     string list \<Rightarrow> review_state \<Rightarrow> review_state" where
  "review_loop co agent fetch request [] st = st"
| "review_loop co agent fetch request (path # paths) st =
     (case review_file co agent fetch request path st of
        (st', True) \<Rightarrow> st'
      | (st', False) \<Rightarrow> review_loop co agent fetch request paths st')"

text \<open>The files that are reviewed: blobs outside the three excluded prefixes.\<close>

definition code_files :: "tree_item list \<Rightarrow> string list" where
  "code_files items =
     map item_path
       (filter (\<lambda>f. item_type f = ''blob'' \<and>
                  \<not> (startswith (item_path f) ''.git'' \<or> startswith (item_path f) ''node_modules'' \<or>
                     startswith (item_path f) ''__pycache__'')) items)"

definition mock_finding :: json where
  "mock_finding =
     JObj [(''type'', JStr ''mock_review''), (''severity'', JStr ''info''),
           (''description'',
              JStr ''OpenAI review failed or quota exceeded. This is a mock code review.''),
           (''location'', JStr ''N/A'')]"

definition mock_recommendations :: "json list" where
  "mock_recommendations =
     [JStr ''Add more tests to your codebase.'',
      JStr ''Follow best practices for code structure.'',
      JStr ''Ensure proper error handling.'']"

text \<open>
  What follows the loop: the fallback when the completion failed or no file was reviewed,
  otherwise the average and the summary. The result is the dict that is stored.
\<close>

definition summary_prompt :: "collaborators \<Rightarrow> review_state \<Rightarrow> string" where
  "summary_prompt co st =
     ''Based on these findings and recommendations, provide a summary of the most important improvements needed:'' @
     nl @ ''Findings: '' @ json_dumps co (JArr (findings st)) @
     nl @ ''Recommendations: '' @ json_dumps co (JArr (recommendations st)) @
     nl @ nl @ ''Return a brief summary paragraph.''"

definition review_result :: "collaborators \<Rightarrow> base_agent \<Rightarrow> string \<Rightarrow> review_state \<Rightarrow> review" where
  "review_result co agent op_id st =
     (let msg = (if \<not> openai_failed st then ''Code review completed''
                 else ''Code review completed with mock fallback due to OpenAI error.'')
      in if openai_failed st \<or> files_reviewed st = 0
         then \<lparr>review_id = op_id, review_status = ''completed'', review_message = msg,
               review_findings = [mock_finding],
               review_recommendations = mock_recommendations,
               review_score = JInt 50,
               review_summary = Some (''OpenAI review failed: '' @
                  (if unset (openai_error_message st) then ''Unknown error''
                   else the (openai_error_message st)) @
                  ''. Returned mock review.'')\<rparr>
         else \<lparr>review_id = op_id, review_status = ''completed'', review_message = msg,
               review_findings = findings st,
               review_recommendations = recommendations st,
               review_score =
                 (case as_number (total_score st) of
                    Some x \<Rightarrow> JFloat (number_real x / real (files_reviewed st))
                  | None \<Rightarrow> JNull),
               review_summary = Some
                 (if findings st \<noteq> [] \<or> recommendations st \<noteq> []
                  then (case call_openai co agent (submitted st) (summary_prompt co st) of
                          Inr text \<Rightarrow> text
                        | Inl oe \<Rightarrow> ''OpenAI summary failed: '' @ str_exn oe @ ''.'')
                  else ''No significant issues found in the reviewed files.'')\<rparr>)"

text \<open>
  \<^verbatim>\<open>run_review\<close>, the background task of \<^verbatim>\<open>POST /code-review\<close>. What a run leaves behind:
  the error it raised, if it raised; the store; and the prompts that the loop over the files
  handed to \<^verbatim>\<open>_call_openai\<close>, in order (the request for a summary, which is made after the loop
  when the review did not fall back, is one more call and is not in this list). The task
  raises, and stores nothing, when the agent cannot be built or when looking the project up or
  listing its tree raises; when the analysis reports an error it stores the error dict;
  otherwise it stores the result of the review.
\<close>

record review_run =
  run_raised :: "exn option"
  run_store :: store
  run_submitted :: "string list"

definition raise_run :: "exn \<Rightarrow> store \<Rightarrow> string list \<Rightarrow> review_run" where
  "raise_run e s sent = \<lparr>run_raised = Some e, run_store = s, run_submitted = sent\<rparr>"

text \<open>The last statement of the task is its call of \<^verbatim>\<open>set_operation\<close>.\<close>

definition finish_run :: "exn + store \<Rightarrow> store \<Rightarrow> string list \<Rightarrow> review_run" where
  "finish_run outcome s sent =
     (case outcome of
        Inl e \<Rightarrow> raise_run e s sent
      | Inr s' \<Rightarrow> \<lparr>run_raised = None, run_store = s', run_submitted = sent\<rparr>)"

definition run_review ::
  "config \<Rightarrow> real \<Rightarrow> 'p gitlab \<Rightarrow> collaborators \<Rightarrow> review_request \<Rightarrow> string \<Rightarrow> store \<Rightarrow>
     review_run" where
  "run_review cfg now gl co request op_id s =
     (case CodeAnalysisAgent_init cfg now of
        Inl e \<Rightarrow> raise_run e s []
      | Inr analysis_agent \<Rightarrow>
     (case analysis_execute gl
             \<lparr>ctx_repo_url = Val (req_repo_url request),
              ctx_branch = (case req_branch request of None \<Rightarrow> PyNone | Some b \<Rightarrow> Val b)\<rparr> of
        Inl e \<Rightarrow> raise_run e s []
      | Inr analysis_result \<Rightarrow>
     if status analysis_result = ''error''
     then finish_run
            (set_operation op_id
               (review_json \<lparr>review_id = op_id, review_status = ''error'',
                  review_message = message analysis_result, review_findings = [],
                  review_recommendations = [], review_score = JInt 0, review_summary = None\<rparr>) s)
            s []
     else
     (case extract_project_path (req_repo_url request) of
        Inl e \<Rightarrow> raise_run e s []
      | Inr project_path \<Rightarrow>
     (case projects_get gl project_path of
        Inl e \<Rightarrow> raise_run e s []
      | Inr project \<Rightarrow>
     (case repository_tree gl project (req_branch request) of
        Inl e \<Rightarrow> raise_run e s []
      | Inr items \<Rightarrow>
     (let st = review_loop co (base analysis_agent)
                 (\<lambda>f. files_get gl project f (req_branch request)) request
                 (take 5 (code_files items)) initial_review_state
      in finish_run
           (set_operation op_id (review_json (review_result co (base analysis_agent) op_id st)) s)
           s (submitted st)))))))"

section \<open>A review scenario\<close>

text \<open>
  Seven code files (and two entries that are filtered out); the completion service answers
  the first two prompts with reviews and raises on every later one.
\<close>

definition scenario_items :: "tree_item list" where
  "scenario_items =
     [\<lparr>item_path = ''src'', item_type = ''tree''\<rparr>,
      \<lparr>item_path = ''.gitignore'', item_type = ''blob''\<rparr>,
      \<lparr>item_path = ''src/a.py'', item_type = ''blob''\<rparr>,
      \<lparr>item_path = ''src/b.py'', item_type = ''blob''\<rparr>,
      \<lparr>item_path = ''src/c.py'', item_type = ''blob''\<rparr>,
      \<lparr>item_path = ''src/d.py'', item_type = ''blob''\<rparr>,
      \<lparr>item_path = ''src/e.py'', item_type = ''blob''\<rparr>,
      \<lparr>item_path = ''src/f.py'', item_type = ''blob''\<rparr>,
      \<lparr>item_path = ''src/g.py'', item_type = ''blob''\<rparr>]"

definition scenario_gitlab :: "unit gitlab" where
  "scenario_gitlab =
     \<lparr>projects_get = (\<lambda>path. Inr ()),
      repository_tree = (\<lambda>project branch. Inr scenario_items),
      files_get = (\<lambda>project path branch. Inr ''pass'')\<rparr>"

definition scenario_collaborators :: collaborators where
  "scenario_collaborators =
     \<lparr>openai = (\<lambda>earlier model system_prompt prompt.
         if earlier = [] then Inr ''first''
         else if length earlier = 1 then Inr ''second''
         else Inl (Exn OtherError ''quota exceeded'')),
      json_loads = (\<lambda>t.
         if t = ''first'' then Some (JObj [(''findings'', JArr [JStr ''F1'']), (''score'', JInt 8)])
         else if t = ''second'' then Some (JObj [(''findings'', JArr [JStr ''F2'']), (''score'', JInt 6)])
         else None),
      json_dumps = (\<lambda>j. ''[]'')\<rparr>"

definition scenario_request :: review_request where
  "scenario_request =
     \<lparr>req_repo_url = ''https://gitlab.com/group/project'', req_branch = Some ''main'',
      req_focus_areas = Some [''security'', ''performance'', ''best_practices'']\<rparr>"

definition scenario_config :: config where
  "scenario_config =
     \<lparr>GITLAB_URL = Some ''https://gitlab.com'', GITLAB_TOKEN = Some ''glpat'',
      OPENAI_API_KEY = Some ''sk'', OPENAI_MODEL = None, GOOGLE_PROJECT_ID = None\<rparr>"

text \<open>The same scenario with a completion service that answers every prompt.\<close>

definition scenario_answering :: collaborators where
  "scenario_answering =
     \<lparr>openai = (\<lambda>earlier model system_prompt prompt. Inr ''first''),
      json_loads = (\<lambda>t.
         if t = ''first'' then Some (JObj [(''findings'', JArr [JStr ''F1'']), (''score'', JInt 8)])
         else None),
      json_dumps = (\<lambda>j. ''[]'')\<rparr>"


text \<open>Fetching a file of the scenario's project on its branch.\<close>

definition scenario_fetch :: "string \<Rightarrow> exn + string" where
  "scenario_fetch f = files_get scenario_gitlab () f (Some ''main'')"

definition scenario_agent :: gitlab_agent where
  "scenario_agent =
     \<lparr>base = BaseAgent_init scenario_config 0, gitlab_url = ''https://gitlab.com'',
      gitlab_token = ''glpat''\<rparr>"

definition scenario_context :: analysis_context where
  "scenario_context =
     \<lparr>ctx_repo_url = Val ''https://gitlab.com/group/project'', ctx_branch = Val ''main''\<rparr>"

definition scenario_store :: store where
  "scenario_store = \<lparr>OPERATIONS_FILE = Missing, writes = 0\<rparr>"

section \<open>The template pipeline task (agents/pipeline\_agent.py)\<close>

text \<open>
  \<^verbatim>\<open>table.get(key, default)\<close> where the table has string keys and the key is a value taken
  from the analysis: a string is looked up, a list or a dict cannot be hashed, and any other
  value is simply not in the table.
\<close>

definition table_get :: "(string \<times> string) list \<Rightarrow> json \<Rightarrow> string \<Rightarrow> exn + string" where
  "table_get table key dflt =
     (case key of
        JStr k \<Rightarrow> Inr (case map_of table k of None \<Rightarrow> dflt | Some v \<Rightarrow> v)
      | JArr xs \<Rightarrow> Inl (Exn TypeError ''unhashable type: 'list' '')
      | JObj kvs \<Rightarrow> Inl (Exn TypeError ''unhashable type: 'dict' '')
      | _ \<Rightarrow> Inr dflt)"

definition get_language_image :: "json \<Rightarrow> exn + string" where
  "get_language_image language =
     table_get
       [(''python'', ''python:3.9''), (''javascript'', ''node:16''), (''typescript'', ''node:16''),
        (''java'', ''maven:3.8''), (''ruby'', ''ruby:3.0''), (''php'', ''php:8.0''),
        (''go'', ''golang:1.16'')]
       language ''alpine:latest''"

definition get_build_commands :: "json \<Rightarrow> exn + string" where
  "get_build_commands language =
     table_get
       [(''python'', ''pip install -r requirements.txt && python setup.py build''),
        (''javascript'', ''npm install && npm run build''),
        (''typescript'', ''npm install && npm run build''),
        (''java'', ''mvn clean package''),
        (''ruby'', ''bundle install && bundle exec rake build''),
        (''php'', ''composer install && php artisan build''),
        (''go'', ''go build -o app'')]
       language ''echo 'No build commands defined' ''"

definition get_test_commands :: "json \<Rightarrow> exn + string" where
  "get_test_commands language =
     table_get
       [(''python'', ''python -m pytest''), (''javascript'', ''npm test''),
        (''typescript'', ''npm test''), (''java'', ''mvn test''),
        (''ruby'', ''bundle exec rspec''), (''php'', ''php artisan test''),
        (''go'', ''go test ./...'')]
       language ''echo 'No test commands defined' ''"

text \<open>
  \<^verbatim>\<open>_generate_basic_pipeline\<close>: the language is read from the analysis (which must be a dict
  for that) and the template is filled in, its four lookups in the order of the text.
\<close>

definition generate_basic_pipeline :: "json \<Rightarrow> exn + string" where
  "generate_basic_pipeline analysis =
     bind (json_get analysis ''language'' (JStr ''unknown'')) (\<lambda>language.
     bind (get_language_image language) (\<lambda>build_image.
     bind (get_build_commands language) (\<lambda>build_commands.
     bind (get_language_image language) (\<lambda>test_image.
     bind (get_test_commands language) (\<lambda>test_commands.
       Inr (py_join nl
         [[],
          ''stages:'',
          ''  - build'',
          ''  - test'',
          ''  - deploy'',
          [],
          ''variables:'',
          ''  DOCKER_DRIVER: overlay2'',
          [],
          ''build:'',
          ''  stage: build'',
          ''  image: '' @ build_image,
          ''  script:'',
          ''    - echo '' @ dq @ ''Building application...'' @ dq,
          ''    - '' @ build_commands,
          ''  artifacts:'',
          ''    paths:'',
          ''      - build/'',
          ''    expire_in: 1 week'',
          [],
          ''test:'',
          ''  stage: test'',
          ''  image: '' @ test_image,
          ''  script:'',
          ''    - echo '' @ dq @ ''Running tests...'' @ dq,
          ''    - '' @ test_commands,
          ''  dependencies:'',
          ''    - build'',
          [],
          ''deploy:'',
          ''  stage: deploy'',
          ''  image: alpine:latest'',
          ''  script:'',
          ''    - echo '' @ dq @ ''Deploying application...'' @ dq,
          ''    - echo '' @ dq @ ''Deployment completed successfully'' @ dq,
          ''  only:'',
          ''    - main'',
          []]))))))"

text \<open>
  The context of the two pipeline agents: the analysis, any value. \<^verbatim>\<open>PipelineAgent\<close> reads
  it with the default \<^verbatim>\<open>{}\<close>, \<^verbatim>\<open>PipelineGenAgent\<close> without a default.
\<close>

record pipeline_context =
  ctx_analysis :: "json field"

fun ctx_json :: "json field \<Rightarrow> json \<Rightarrow> json" where
  "ctx_json Absent dflt = dflt"
| "ctx_json PyNone dflt = JNull"
| "ctx_json (Val v) dflt = v"

definition pipeline_body :: "pipeline_context \<Rightarrow> exn + result" where
  "pipeline_body context =
     (let analysis = ctx_json (ctx_analysis context) (JObj []) in
      if \<not> truthy analysis then Inl (Exn ValueError ''Repository analysis is required'')
      else bind (generate_basic_pipeline analysis) (\<lambda>pipeline_yaml.
             Inr (format_success ''Pipeline generation completed''
                    (JObj [(''pipeline_yaml'', JStr pipeline_yaml)]))))"

definition pipeline_execute :: "pipeline_context \<Rightarrow> exn + result" where
  "pipeline_execute context = try_except (pipeline_body context) (\<lambda>e. Inr (format_error e))"

section \<open>The generated pipeline task (agents/pipeline\_gen\_agent.py, \<^verbatim>\<open>execute\<close>)\<close>








section \<open>The validation task (agents/validation\_agent.py, \<^verbatim>\<open>execute\<close>)\<close>

record pipeline_yaml_context =
  ctx_pipeline_yaml :: "string field"
  ctx_url :: "string field"
  ctx_deploy_to_cloud :: "bool field"

text \<open>
  The \<^verbatim>\<open>_extract_project_path\<close> of the validation and deployment agents: no checks. Calling
  \<^verbatim>\<open>split\<close> on \<^verbatim>\<open>None\<close> raises.
\<close>

definition extract_project_path_simple :: "string option \<Rightarrow> exn + string" where
  "extract_project_path_simple repo_url =
     (case repo_url of
        None \<Rightarrow> Inl (Exn AttributeError '''NoneType' object has no attribute 'split' '')
      | Some url \<Rightarrow> Inr (py_join ''/'' (tl (py_split ''/'' (last (py_split ''//'' url))))))"

text \<open>\<^verbatim>\<open>_validate_pipeline\<close>: the canned result, whatever the project and the text are.\<close>

definition validate_pipeline :: "string \<Rightarrow> json" where
  "validate_pipeline pipeline_yaml =
     JObj [(''valid'', JBool True), (''errors'', JArr []), (''warnings'', JArr []),
           (''merged_yaml'', JStr pipeline_yaml)]"

text \<open>
  The body of \<^verbatim>\<open>ValidationAgent.execute\<close>. The debug line slices the pipeline text before
  the text is checked, which raises on \<^verbatim>\<open>None\<close>. The branch that asks for suggestions is
  guarded by \<^verbatim>\<open>not validation_result["valid"]\<close>; the canned result has \<^verbatim>\<open>valid\<close> true, so the
  branch is never entered and \<^verbatim>\<open>_get_suggestions\<close> is not modelled.
\<close>

definition validation_body :: "'p gitlab \<Rightarrow> pipeline_yaml_context \<Rightarrow> exn + result" where
  "validation_body gl context =
     (let pipeline_yaml = ctx_get (ctx_pipeline_yaml context);
          repo_url = ctx_get (ctx_url context)
      in case pipeline_yaml of
           None \<Rightarrow> Inl (Exn TypeError '''NoneType' object is not subscriptable'')
         | Some yaml_text \<Rightarrow>
             if yaml_text = [] then Inl (Exn ValueError ''Pipeline YAML is required'')
             else
               bind (extract_project_path_simple repo_url) (\<lambda>project_path.
               bind (projects_get gl project_path) (\<lambda>project.
               (let validation_result = validate_pipeline yaml_text in
                Inr \<lparr>status = ''success'', message = ''Pipeline validation completed'',
                     data = validation_result\<rparr>))))"

definition validation_execute :: "'p gitlab \<Rightarrow> pipeline_yaml_context \<Rightarrow> exn + result" where
  "validation_execute gl context =
     try_except (validation_body gl context) (\<lambda>e. Inr (format_error e))"

section \<open>The deployment task (agents/deployment\_agent.py, \<^verbatim>\<open>execute\<close>)\<close>

text \<open>
  What the deployment uses of the host and of the cloud: reading, saving and creating the
  pipeline file, the project's web address and path; getting and creating the registry
  repository and the service, each returning the name of what it got or made.
\<close>

record 'p deploy_host =
  host_projects_get :: "string \<Rightarrow> exn + 'p"
  host_file_get :: "'p \<Rightarrow> string \<Rightarrow> string \<Rightarrow> exn option"
  host_file_save :: "'p \<Rightarrow> string \<Rightarrow> exn option"
  host_file_create :: "'p \<Rightarrow> string \<Rightarrow> exn option"
  host_web_url :: "'p \<Rightarrow> string"
  host_path :: "'p \<Rightarrow> string"

record cloud =
  get_repository :: "string \<Rightarrow> exn + string"
  create_repository :: "string \<Rightarrow> string \<Rightarrow> exn + string"
  get_service :: "string \<Rightarrow> exn + string"
  create_service :: "string \<Rightarrow> string \<Rightarrow> string \<Rightarrow> exn + string"

fun raised :: "exn option \<Rightarrow> exn + unit" where
  "raised None = Inr ()"
| "raised (Some e) = Inl e"

text \<open>
  \<^verbatim>\<open>_deploy_pipeline\<close>: get the file and save it; on any error of that, create it. An error
  of the creation is raised again with a prefix.
\<close>

definition deploy_pipeline :: "'p deploy_host \<Rightarrow> 'p \<Rightarrow> string \<Rightarrow> exn + json" where
  "deploy_pipeline host project pipeline_yaml =
     try_except
       (bind (try_except
                (bind (raised (host_file_get host project ''.gitlab-ci.yml'' ''main'')) (\<lambda>u.
                   raised (host_file_save host project pipeline_yaml)))
                (\<lambda>e. raised (host_file_create host project pipeline_yaml)))
          (\<lambda>u. Inr (JObj [(''status'', JStr ''success''),
                          (''message'', JStr ''Pipeline deployed to GitLab''),
                          (''pipeline_url'', JStr (host_web_url host project @ ''/-/pipelines''))])))
       (\<lambda>e. Inl (Exn OtherError (''Error deploying pipeline: '' @ str_exn e)))"

text \<open>\<^verbatim>\<open>_setup_cloud_resources\<close>: get or create the repository, then the service.\<close>

definition setup_cloud_resources ::
  "'p deploy_host \<Rightarrow> cloud \<Rightarrow> deployment_agent \<Rightarrow> 'p \<Rightarrow> exn + json" where
  "setup_cloud_resources host cl agent project =
     try_except
       (let parent = ''projects/'' @ project_id agent @ ''/locations/us-central1'';
            repo_name = parent @ ''/repositories/'' @ host_path host project;
            service_name = parent @ ''/services/'' @ host_path host project;
            image = ''us-central1-docker.pkg.dev/'' @ project_id agent @ ''/'' @
                       host_path host project @ ''/app:latest''
        in bind (try_except (get_repository cl repo_name)
                   (\<lambda>e. create_repository cl parent (host_path host project))) (\<lambda>repo.
           bind (try_except (get_service cl service_name)
                   (\<lambda>e. create_service cl parent (host_path host project) image)) (\<lambda>service.
             Inr (JObj [(''status'', JStr ''success''),
                        (''message'', JStr ''Google Cloud resources created''),
                        (''artifact_registry'', JStr repo),
                        (''cloud_run'', JStr service)]))))
       (\<lambda>e. Inl (Exn OtherError (''Error setting up Google Cloud resources: '' @ str_exn e)))"

definition deployment_body ::
  "'p deploy_host \<Rightarrow> cloud \<Rightarrow> deployment_agent \<Rightarrow> pipeline_yaml_context \<Rightarrow> exn + result" where
  "deployment_body host cl agent context =
     (let pipeline_yaml = ctx_get (ctx_pipeline_yaml context);
          repo_url = ctx_get (ctx_url context);
          deploy_to_cloud = ctx_get_default (ctx_deploy_to_cloud context) False
      in if unset pipeline_yaml then Inl (Exn ValueError ''Pipeline YAML is required'')
         else
           bind (extract_project_path_simple repo_url) (\<lambda>project_path.
           bind (host_projects_get host project_path) (\<lambda>project.
           bind (deploy_pipeline host project (the pipeline_yaml)) (\<lambda>pipeline_result.
           bind (if deploy_to_cloud = Some True
                 then setup_cloud_resources host cl agent project
                 else Inr JNull) (\<lambda>cloud_result.
             Inr \<lparr>status = ''success'', message = ''Deployment completed successfully'',
                  data = JObj [(''pipeline'', pipeline_result), (''cloud'', cloud_result)]\<rparr>)))))"

definition deployment_execute ::
  "'p deploy_host \<Rightarrow> cloud \<Rightarrow> deployment_agent \<Rightarrow> pipeline_yaml_context \<Rightarrow> exn + result" where
  "deployment_execute host cl agent context =
     try_except (deployment_body host cl agent context) (\<lambda>e. Inr (format_error e))"

section \<open>Concurrent writers of the operation store\<close>

text \<open>
  \<^verbatim>\<open>set_operation\<close> takes the lock twice: once inside \<^verbatim>\<open>_read_operations\<close> and once inside
  \<^verbatim>\<open>_write_operations\<close>, and between the two it holds only its local \<^verbatim>\<open>ops\<close>. A call in
  progress is therefore at one of three places: before its read, before its write (with the
  dict it read), or finished. Each step below is what one caller does while it holds the lock.
\<close>

datatype place = BeforeRead | BeforeWrite json | Finished

record writer =
  writer_op_id :: string
  writer_data :: json
  writer_at :: place

definition writer_step :: "writer \<Rightarrow> store \<Rightarrow> exn + writer \<times> store" where
  "writer_step w s =
     (case writer_at w of
        BeforeRead \<Rightarrow> Inr (w\<lparr>writer_at := BeforeWrite (read_operations s)\<rparr>, s)
      | BeforeWrite local_ops \<Rightarrow>
          (case local_ops of
             JObj ops \<Rightarrow>
               Inr (w\<lparr>writer_at := Finished\<rparr>,
                    write_operations (JObj (AList.update (writer_op_id w) (writer_data w) ops)) s)
           | _ \<Rightarrow> Inl (Exn TypeError ''object does not support item assignment''))
      | Finished \<Rightarrow> Inr (w, s))"

text \<open>
  A schedule names, step by step, the caller that runs next; the callers are numbered from 0.
\<close>

fun run_schedule :: "nat list \<Rightarrow> writer list \<Rightarrow> store \<Rightarrow> exn + writer list \<times> store" where
  "run_schedule [] ws s = Inr (ws, s)"
| "run_schedule (i # schedule) ws s =
     (if i < length ws
      then (case writer_step (ws ! i) s of
              Inl e \<Rightarrow> Inl e
            | Inr (w', s') \<Rightarrow> run_schedule schedule (ws[i := w']) s')
      else run_schedule schedule ws s)"

definition new_writer :: "string \<Rightarrow> json \<Rightarrow> writer" where
  "new_writer op_id payload = \<lparr>writer_op_id = op_id, writer_data = payload, writer_at = BeforeRead\<rparr>"

section \<open>The rate-limited queue (agents/base\_agent.py, \<^verbatim>\<open>_process_queue\<close>)\<close>

text \<open>
  Time is a real number of seconds. A queued request comes with what the environment decides
  about it: how long the completion request takes, whether it returns or raises, and two
  delays, the time that passes before the consumer reads the clock for this request and the
  time by which the rate-limit sleep overshoots. A call of the log is the time at which the
  request was started, the time at which it returned or raised, and which of the two it did.
\<close>

record queued =
  takes :: real
  returns :: bool
  wake_lag :: real
  sleep_lag :: real

record call =
  call_start :: real
  call_end :: real
  call_returned :: bool

text \<open>
  The consumer, for a queue that holds all its requests from the beginning; \<open>t\<close> is the
  clock when the iteration begins. The iteration reads the clock, sleeps if the last recorded
  request time is less than the minimum interval ago, makes the request, and records the time
  only when the request returned: the assignment to \<^verbatim>\<open>last_request_time\<close> is the last statement
  of the \<^verbatim>\<open>try\<close> block and is skipped when the request raises. Every iteration ends with a
  sleep of 0.1 seconds.
\<close>

fun process_queue :: "base_agent \<Rightarrow> real \<Rightarrow> queued list \<Rightarrow> call list" where
  "process_queue agent t [] = []"
| "process_queue agent t (item # queue) =
     (let now = t + wake_lag item;
          time_since_last = now - last_request_time agent;
          started = (if time_since_last < min_request_interval agent
                     then now + (min_request_interval agent - time_since_last) + sleep_lag item
                     else now);
          ended = started + takes item;
          agent' = (if returns item then agent\<lparr>last_request_time := ended\<rparr> else agent)
      in \<lparr>call_start = started, call_end = ended, call_returned = returns item\<rparr> #
         process_queue agent' (ended + 0.1) queue)"

text \<open>Two calls that follow each other in the log are far enough apart.\<close>

fun spaced :: "real \<Rightarrow> call list \<Rightarrow> bool" where
  "spaced gap [] = True"
| "spaced gap [c] = True"
| "spaced gap (c # d # cs) = (call_end c + gap \<le> call_start d \<and> spaced gap (d # cs))"

text \<open>The same, asked only of the calls that follow a call that returned.\<close>

fun spaced_after_return :: "real \<Rightarrow> call list \<Rightarrow> bool" where
  "spaced_after_return gap [] = True"
| "spaced_after_return gap [c] = True"
| "spaced_after_return gap (c # d # cs) =
     ((if call_returned c then call_end c + gap \<le> call_start d else True) \<and>
      spaced_after_return gap (d # cs))"

section \<open>Properties of the operation store\<close>

lemma store_ok_cases:
  "store_ok s \<Longrightarrow> \<exists>ops. read_operations s = JObj ops"
  by (auto simp: read_operations_def split: file_content.splits json.splits)

lemma read_write_operations [simp]:
  "read_operations (write_operations ops s) = ops"
  by (simp add: read_operations_def write_operations_def)

lemma store_ok_write [simp]:
  "store_ok (write_operations (JObj ops) s)"
  by (simp add: write_operations_def)

lemma set_operation_ok:
  assumes "store_ok s"
  shows "\<exists>s'. set_operation k v s = Inr s' \<and> store_ok s' \<and> stored s' = (stored s)(k \<mapsto> v)"
proof -
  from assms obtain ops where r: "read_operations s = JObj ops"
    using store_ok_cases by blast
  show ?thesis
    by (simp add: set_operation_def r stored_def update_conv' del: store_ok.simps)
qed

lemma delete_operation_ok:
  assumes "store_ok s"
  shows "\<exists>s'. delete_operation k s = Inr s' \<and> store_ok s' \<and> stored s' = (stored s)(k := None)"
proof -
  from assms obtain ops where r: "read_operations s = JObj ops"
    using store_ok_cases by blast
  have "(map_of ops)(k := None) = map_of ops" if "k \<notin> fst ` set ops"
  proof -
    from that have "map_of ops k = None" by (simp add: map_of_eq_None_iff)
    then show ?thesis by (simp add: fun_eq_iff)
  qed
  then show ?thesis
    using assms
    by (simp add: delete_operation_def r stored_def delete_conv' del: store_ok.simps)
qed

lemma run_call_ok:
  assumes "store_ok s"
  shows "\<exists>s'. run_call c s = Inr s' \<and> store_ok s' \<and>
           (\<forall>k. k \<noteq> call_id c \<longrightarrow> stored s' k = stored s k)"
proof (cases c)
  case (SetOp k v)
  with set_operation_ok [OF assms, of k v] show ?thesis by auto
next
  case (DelOp k)
  with delete_operation_ok [OF assms, of k] show ?thesis by auto
qed

lemma run_calls_ok:
  assumes "store_ok s"
  shows "\<exists>s'. run_calls cs s = Inr s' \<and> store_ok s' \<and>
           (\<forall>k. k \<notin> call_id ` set cs \<longrightarrow> stored s' k = stored s k)"
  using assms
proof (induction cs arbitrary: s)
  case Nil
  then show ?case by simp
next
  case (Cons c cs)
  from run_call_ok [OF Cons.prems, of c] obtain s1 where
    s1: "run_call c s = Inr s1" "store_ok s1"
        "\<forall>k. k \<noteq> call_id c \<longrightarrow> stored s1 k = stored s k"
    by blast
  from Cons.IH [OF s1(2)] obtain s2 where
    s2: "run_calls cs s1 = Inr s2" "store_ok s2"
        "\<forall>k. k \<notin> call_id ` set cs \<longrightarrow> stored s2 k = stored s1 k"
    by blast
  show ?case
    using s1 s2 by (auto simp del: store_ok.simps)
qed

lemma get_operation_stored:
  assumes "store_ok s"
  shows "get_operation k s = Inr (case stored s k of None \<Rightarrow> JNull | Some v \<Rightarrow> v)"
proof -
  from assms obtain ops where r: "read_operations s = JObj ops"
    using store_ok_cases by blast
  show ?thesis
    by (simp add: get_operation_def r stored_def dict_get_def)
qed

text \<open>
  C1. Round trip of the operation store: on a backing file that is missing, unparsable or holds
  a dict (every file the store itself writes is of that kind), \<open>set_operation k v\<close> returns,
  any sequence of later store calls on other operation ids returns, and \<open>get_operation k\<close>
  afterwards returns exactly \<open>v\<close>.
\<close>

theorem store_round_trip:
  assumes "store_ok s" and "\<forall>c \<in> set cs. call_id c \<noteq> k"
  shows "\<exists>s1 s2. set_operation k v s = Inr s1 \<and> run_calls cs s1 = Inr s2 \<and>
           get_operation k s2 = Inr v"
proof -
  from set_operation_ok [OF assms(1), of k v] obtain s1 where
    s1: "set_operation k v s = Inr s1" "store_ok s1" "stored s1 = (stored s)(k \<mapsto> v)"
    by blast
  from run_calls_ok [OF s1(2), of cs] obtain s2 where
    s2: "run_calls cs s1 = Inr s2" "store_ok s2"
        "\<forall>k. k \<notin> call_id ` set cs \<longrightarrow> stored s2 k = stored s1 k"
    by blast
  from assms(2) have "k \<notin> call_id ` set cs" by auto
  with s2(3) s1(3) have "stored s2 k = Some v" by simp
  with get_operation_stored [OF s2(2), of k] have "get_operation k s2 = Inr v" by simp
  with s1(1) s2(1) show ?thesis by blast
qed

lemma store_ok_Missing [simp]: "store_ok \<lparr>OPERATIONS_FILE = Missing, writes = n\<rparr>"
  by simp

theorem store_round_trip_witness:
  "store_ok \<lparr>OPERATIONS_FILE = Missing, writes = 0\<rparr> \<and>
   call_id (SetOp ''review_1'' JNull) \<noteq> ''analyze_1'' \<and>
   call_id (DelOp ''deploy_1'') \<noteq> ''analyze_1'' \<and>
   (\<exists>s1 s2. set_operation ''analyze_1'' (JStr ''done'') \<lparr>OPERATIONS_FILE = Missing, writes = 0\<rparr> = Inr s1 \<and>
      run_calls [SetOp ''review_1'' JNull, DelOp ''deploy_1''] s1 = Inr s2 \<and>
      get_operation ''analyze_1'' s2 = Inr (JStr ''done''))"
  using store_round_trip [of "\<lparr>OPERATIONS_FILE = Missing, writes = 0\<rparr>"
      "[SetOp ''review_1'' JNull, DelOp ''deploy_1'']" "''analyze_1''" "JStr ''done''"]
  by simp

text \<open>
  C10. \<open>delete_operation\<close> on a store whose file is missing, unparsable or a dict: for an id
  that is not stored, the call returns the store as it was (the same file and the same
  number of writes); for a stored id, it writes once, the id is gone afterwards and every
  other id maps to what it mapped to before.
\<close>

theorem delete_operation_frame:
  assumes "store_ok s"
  shows "(k \<notin> dom (stored s) \<longrightarrow> delete_operation k s = Inr s) \<and>
         (k \<in> dom (stored s) \<longrightarrow>
            (\<exists>s'. delete_operation k s = Inr s' \<and> writes s' = Suc (writes s) \<and>
               stored s' k = None \<and> (\<forall>k'. k' \<noteq> k \<longrightarrow> stored s' k' = stored s k')))"
proof -
  from assms obtain ops where r: "read_operations s = JObj ops"
    using store_ok_cases by blast
  have w: "writes (write_operations j s) = Suc (writes s)" for j
    by (simp add: write_operations_def)
  show ?thesis
    by (simp add: delete_operation_def r stored_def w delete_conv' dom_map_of_conv_image_fst)
qed

theorem delete_operation_frame_witness:
  "store_ok \<lparr>OPERATIONS_FILE = Parsed (JObj [(''a'', JInt 1), (''b'', JInt 2)]), writes = 3\<rparr> \<and>
   ''c'' \<notin> dom (stored \<lparr>OPERATIONS_FILE = Parsed (JObj [(''a'', JInt 1), (''b'', JInt 2)]), writes = 3\<rparr>) \<and>
   delete_operation ''c'' \<lparr>OPERATIONS_FILE = Parsed (JObj [(''a'', JInt 1), (''b'', JInt 2)]), writes = 3\<rparr>
     = Inr \<lparr>OPERATIONS_FILE = Parsed (JObj [(''a'', JInt 1), (''b'', JInt 2)]), writes = 3\<rparr> \<and>
   ''a'' \<in> dom (stored \<lparr>OPERATIONS_FILE = Parsed (JObj [(''a'', JInt 1), (''b'', JInt 2)]), writes = 3\<rparr>) \<and>
   delete_operation ''a'' \<lparr>OPERATIONS_FILE = Parsed (JObj [(''a'', JInt 1), (''b'', JInt 2)]), writes = 3\<rparr>
     = Inr \<lparr>OPERATIONS_FILE = Parsed (JObj [(''b'', JInt 2)]), writes = 4\<rparr>"
  using delete_operation_frame
    [of "\<lparr>OPERATIONS_FILE = Parsed (JObj [(''a'', JInt 1), (''b'', JInt 2)]), writes = 3\<rparr>" "''c''"]
    delete_operation_frame
    [of "\<lparr>OPERATIONS_FILE = Parsed (JObj [(''a'', JInt 1), (''b'', JInt 2)]), writes = 3\<rparr>" "''a''"]
  by (simp add: stored_def read_operations_def delete_operation_def write_operations_def)

section \<open>Properties of the agent constructors\<close>

text \<open>
  C7, as the code has it. A missing (or empty) GitLab URL or token makes the constructors of
  the analysis, validation and deployment agents raise at once, and so does a missing cloud
  project id for the deployment agent. The completion-service credential is different: no
  constructor looks at it beyond printing a warning, so whether construction succeeds does
  not depend on it, and an agent built without it raises on its first completion request.
\<close>

theorem configuration_checked_at_construction:
  "(unset (GITLAB_URL cfg) \<or> unset (GITLAB_TOKEN cfg) \<longrightarrow>
      CodeAnalysisAgent_init cfg now = Inl (Exn ValueError ''GitLab configuration is missing'') \<and>
      ValidationAgent_init cfg now = Inl (Exn ValueError ''GitLab configuration is missing'') \<and>
      DeploymentAgent_init cfg now clients = Inl (Exn ValueError ''GitLab configuration is missing'')) \<and>
   (\<not> unset (GITLAB_URL cfg) \<and> \<not> unset (GITLAB_TOKEN cfg) \<and> unset (GOOGLE_PROJECT_ID cfg) \<longrightarrow>
      DeploymentAgent_init cfg now clients = Inl (Exn ValueError ''Google Cloud project ID is missing'')) \<and>
   isl (CodeAnalysisAgent_init (cfg\<lparr>OPENAI_API_KEY := key\<rparr>) now) = isl (CodeAnalysisAgent_init cfg now) \<and>
   isl (ValidationAgent_init (cfg\<lparr>OPENAI_API_KEY := key\<rparr>) now) = isl (ValidationAgent_init cfg now) \<and>
   isl (DeploymentAgent_init (cfg\<lparr>OPENAI_API_KEY := key\<rparr>) now clients)
     = isl (DeploymentAgent_init cfg now clients) \<and>
   \<not> isl (PipelineAgent_init cfg now) \<and>
   \<not> isl (PipelineGenAgent_init cfg now) \<and>
   (unset (OPENAI_API_KEY cfg) \<longrightarrow>
      make_openai_request completion (BaseAgent_init cfg now) prompt system_prompt
        = Inl (Exn ValueError ''OPENAI_API_KEY is not set.''))"
  by (simp add: CodeAnalysisAgent_init_def ValidationAgent_init_def DeploymentAgent_init_def
      PipelineAgent_init_def PipelineGenAgent_init_def make_openai_request_def
      BaseAgent_init_def Let_def split: option.splits)

theorem configuration_checked_at_construction_witness:
  "unset (GITLAB_TOKEN \<lparr>GITLAB_URL = Some ''https://gitlab.com'', GITLAB_TOKEN = None,
      OPENAI_API_KEY = None, OPENAI_MODEL = None, GOOGLE_PROJECT_ID = None\<rparr>) \<and>
   CodeAnalysisAgent_init \<lparr>GITLAB_URL = Some ''https://gitlab.com'', GITLAB_TOKEN = None,
      OPENAI_API_KEY = None, OPENAI_MODEL = None, GOOGLE_PROJECT_ID = None\<rparr> 0
     = Inl (Exn ValueError ''GitLab configuration is missing'') \<and>
   \<not> unset (GITLAB_URL \<lparr>GITLAB_URL = Some ''https://gitlab.com'', GITLAB_TOKEN = Some ''glpat'',
      OPENAI_API_KEY = None, OPENAI_MODEL = None, GOOGLE_PROJECT_ID = None\<rparr>) \<and>
   DeploymentAgent_init \<lparr>GITLAB_URL = Some ''https://gitlab.com'', GITLAB_TOKEN = Some ''glpat'',
      OPENAI_API_KEY = None, OPENAI_MODEL = None, GOOGLE_PROJECT_ID = None\<rparr> 0 None
     = Inl (Exn ValueError ''Google Cloud project ID is missing'') \<and>
   make_openai_request (\<lambda>m sp p. Inr p)
      (BaseAgent_init \<lparr>GITLAB_URL = Some ''https://gitlab.com'', GITLAB_TOKEN = Some ''glpat'',
         OPENAI_API_KEY = None, OPENAI_MODEL = None, GOOGLE_PROJECT_ID = None\<rparr> 0) ''hello'' None
     = Inl (Exn ValueError ''OPENAI_API_KEY is not set.'')"
  using configuration_checked_at_construction
    [of "\<lparr>GITLAB_URL = Some ''https://gitlab.com'', GITLAB_TOKEN = None,
      OPENAI_API_KEY = None, OPENAI_MODEL = None, GOOGLE_PROJECT_ID = None\<rparr>" 0 None None
      "\<lambda>m sp p. Inr p" "''hello''" None]
    configuration_checked_at_construction
    [of "\<lparr>GITLAB_URL = Some ''https://gitlab.com'', GITLAB_TOKEN = Some ''glpat'',
      OPENAI_API_KEY = None, OPENAI_MODEL = None, GOOGLE_PROJECT_ID = None\<rparr>" 0 None None
      "\<lambda>m sp p. Inr p" "''hello''" None]
  by simp

text \<open>
  The claim as the specification words it fails for the completion-service credential: with
  \<^verbatim>\<open>OPENAI_API_KEY\<close> not set, the analysis agent (which the review task uses for its
  completion calls) is constructed when the GitLab settings are present, and so is the agent
  that generates pipelines with the completion service; both only print the warning.
\<close>

theorem construction_without_completion_credential:
  "CodeAnalysisAgent_init \<lparr>GITLAB_URL = Some ''https://gitlab.com'', GITLAB_TOKEN = Some ''glpat'',
      OPENAI_API_KEY = None, OPENAI_MODEL = None, GOOGLE_PROJECT_ID = None\<rparr> 0
     = Inr \<lparr>base = \<lparr>openai_api_key = None, openai_model = ''gpt-3.5-turbo'', warned = True,
                      last_request_time = 0, min_request_interval = 1\<rparr>,
            gitlab_url = ''https://gitlab.com'', gitlab_token = ''glpat''\<rparr> \<and>
   PipelineGenAgent_init \<lparr>GITLAB_URL = None, GITLAB_TOKEN = None,
      OPENAI_API_KEY = None, OPENAI_MODEL = None, GOOGLE_PROJECT_ID = None\<rparr> 0
     = Inr \<lparr>openai_api_key = None, openai_model = ''gpt-3.5-turbo'', warned = True,
            last_request_time = 0, min_request_interval = 1\<rparr>"
  by (simp add: CodeAnalysisAgent_init_def PipelineGenAgent_init_def BaseAgent_init_def)

section \<open>Properties of the operation lifecycle\<close>

lemma truthy_payload [simp]: "truthy (payload_json p)"
  by (cases p) (simp_all add: result_json_def review_json_def)

lemma step_stored:
  assumes "store_ok (ops_store sv)"
  shows "store_ok (ops_store (step e sv)) \<and>
         (\<forall>k. finish_id e \<noteq> Some k \<longrightarrow> stored (ops_store (step e sv)) k = stored (ops_store sv) k)"
proof (cases e)
  case (Schedule k stamp)
  with assms show ?thesis by simp
next
  case (Finish op_id p)
  from set_operation_ok [OF assms, of op_id "payload_json p"] obtain s' where
    "set_operation op_id (payload_json p) (ops_store sv) = Inr s'" "store_ok s'"
    "stored s' = (stored (ops_store sv))(op_id \<mapsto> payload_json p)"
    by blast
  with assms Finish show ?thesis
    by (auto simp del: store_ok.simps)
qed

lemma run_stored:
  assumes "store_ok (ops_store sv)"
  shows "store_ok (ops_store (run evs sv)) \<and>
         (\<forall>k. Some k \<notin> finish_id ` set evs \<longrightarrow>
              stored (ops_store (run evs sv)) k = stored (ops_store sv) k)"
  using assms
proof (induction evs arbitrary: sv)
  case Nil
  then show ?case by simp
next
  case (Cons e es)
  from step_stored [OF Cons.prems, of e] have
    1: "store_ok (ops_store (step e sv))"
    and 2: "\<forall>k. finish_id e \<noteq> Some k \<longrightarrow> stored (ops_store (step e sv)) k = stored (ops_store sv) k"
    by blast+
  from Cons.IH [OF 1] 2 show ?case
    by (auto simp del: store_ok.simps step.simps)
qed

lemma poll_stored:
  assumes "store_ok (ops_store sv)"
  shows "get_operation_status k sv =
           (case stored (ops_store sv) k of
              None \<Rightarrow> HTTPException 404 ''Operation not found''
            | Some v \<Rightarrow> if truthy v then Return v else HTTPException 404 ''Operation not found'')"
  by (simp add: get_operation_status_def get_operation_stored [OF assms] split: option.splits)

lemma stored_fresh [simp]: "stored (ops_store fresh_server) k = None"
  by (simp add: fresh_server_def stored_def read_operations_def)

lemma store_ok_fresh [simp]: "store_ok (ops_store fresh_server)"
  by (simp add: fresh_server_def)

text \<open>
  C4. Polling. From a fresh server, after any sequence of requests being accepted and tasks
  finishing, an id for which no task has finished (never scheduled, or scheduled and still
  running) is answered with 404 "Operation not found": accepting a request writes nothing, so
  there is never a "processing" record. Once the task of a pending id has written its payload,
  the poll returns exactly that payload, for as long as no other task finishes under the same
  id. Accepting an analysis request leaves the store as it was.
\<close>

theorem polling_semantics:
  "(Some k \<notin> finish_id ` set evs \<longrightarrow>
      get_operation_status k (run evs fresh_server) = HTTPException 404 ''Operation not found'') \<and>
   (store_ok (ops_store sv) \<and> k \<in> set (background sv) \<and> Some k \<notin> finish_id ` set later \<longrightarrow>
      get_operation_status k (run later (step (Finish k p) sv)) = Return (payload_json p)) \<and>
   ops_store (snd (analyze_repository cfg now stamp sv)) = ops_store sv"
proof (intro conjI impI)
  assume a: "Some k \<notin> finish_id ` set evs"
  from run_stored [OF store_ok_fresh, of evs] a
  have "store_ok (ops_store (run evs fresh_server))"
    and "stored (ops_store (run evs fresh_server)) k = None"
    by (simp_all del: store_ok.simps)
  then show "get_operation_status k (run evs fresh_server) = HTTPException 404 ''Operation not found''"
    by (simp add: poll_stored del: store_ok.simps)
next
  assume a: "store_ok (ops_store sv) \<and> k \<in> set (background sv) \<and> Some k \<notin> finish_id ` set later"
  then have ok: "store_ok (ops_store sv)" and pend: "k \<in> set (background sv)"
    and later: "Some k \<notin> finish_id ` set later"
    by blast+
  from set_operation_ok [OF ok, of k "payload_json p"] obtain s' where
    s': "set_operation k (payload_json p) (ops_store sv) = Inr s'" "store_ok s'"
    "stored s' = (stored (ops_store sv))(k \<mapsto> payload_json p)"
    by blast
  let ?sv1 = "step (Finish k p) sv"
  from s' pend have 1: "store_ok (ops_store ?sv1)" and 2: "stored (ops_store ?sv1) k = Some (payload_json p)"
    by (simp_all del: store_ok.simps)
  from run_stored [OF 1, of later] later 2
  have "store_ok (ops_store (run later ?sv1))"
    and "stored (ops_store (run later ?sv1)) k = Some (payload_json p)"
    by (simp_all del: store_ok.simps step.simps)
  then show "get_operation_status k (run later ?sv1) = Return (payload_json p)"
    by (simp add: poll_stored del: store_ok.simps step.simps)
next
  show "ops_store (snd (analyze_repository cfg now stamp sv)) = ops_store sv"
    by (simp add: analyze_repository_def Let_def split: sum.splits)
qed

theorem polling_semantics_witness:
  "Some ''analyze_20240101_120000'' \<notin> finish_id ` set [Schedule Analyze ''20240101_120000''] \<and>
   get_operation_status ''analyze_20240101_120000'' (run [Schedule Analyze ''20240101_120000''] fresh_server)
     = HTTPException 404 ''Operation not found'' \<and>
   store_ok (ops_store (run [Schedule Analyze ''20240101_120000''] fresh_server)) \<and>
   ''analyze_20240101_120000'' \<in> set (background (run [Schedule Analyze ''20240101_120000''] fresh_server)) \<and>
   Some ''analyze_20240101_120000'' \<notin> finish_id ` set [Schedule Review ''20240101_120001''] \<and>
   get_operation_status ''analyze_20240101_120000''
     (run [Schedule Review ''20240101_120001'']
        (step (Finish ''analyze_20240101_120000''
                 (AgentResult (format_error (Exn ValueError ''Repository URL is required''))))
           (run [Schedule Analyze ''20240101_120000''] fresh_server)))
     = Return (JObj [(''status'', JStr ''error''),
                     (''message'', JStr ''Repository URL is required''),
                     (''data'', JNull)])"
  using polling_semantics [of "''analyze_20240101_120000''" "[Schedule Analyze ''20240101_120000'']"
      "run [Schedule Analyze ''20240101_120000''] fresh_server"
      "[Schedule Review ''20240101_120001'']"
      "AgentResult (format_error (Exn ValueError ''Repository URL is required''))"]
  by (simp add: fresh_server_def operation_id_def result_json_def format_error_def)

section \<open>Properties of the code-fence cleaning\<close>














lemma slice_from_append: "n = length p \<Longrightarrow> slice_from n (p @ z) = z"
  by (simp add: slice_from_def)

lemma slice_to_minus_append: "n = length p \<Longrightarrow> slice_to_minus n (z @ p) = z"
  by (simp add: slice_to_minus_def)

lemma startswith_long:
  "length p \<le> length y \<Longrightarrow> startswith (y @ z) p = startswith y p"
  by (simp add: startswith_def)








section \<open>Properties of the language detection\<close>













text \<open>
  The extension that is counted most often is looked up in the table whether or not the
  table has it: a majority of unmapped files gives \<^verbatim>\<open>unknown\<close>.
\<close>

lemma detect_language_unmapped_majority:
  "detect_language [''README.md'', ''CHANGES.md'', ''app.py''] [] = ''unknown''"
  by (simp add: detect_language_def file_ext_def lower_def lower_char_def ext_to_lang_def)

section \<open>Properties of the review task\<close>

lemma accumulate_keeps:
  "openai_failed (fst (accumulate d st)) = openai_failed st \<and>
   submitted (fst (accumulate d st)) = submitted st"
  by (simp add: accumulate_def Let_def split: sum.splits)

lemma review_file_flag:
  assumes "\<not> openai_failed st"
  shows "snd (review_file co agent fetch request path st)
       = openai_failed (fst (review_file co agent fetch request path st))"
proof -
  have "openai_failed st2 = openai_failed st1" if "accumulate d st1 = (st2, r)" for d st1 st2 r
    using accumulate_keeps [of d st1] that by simp
  with assms show ?thesis
    by (auto simp: review_file_def Let_def split: sum.splits option.splits prod.splits)
qed

lemma review_file_submitted:
  "submitted (fst (review_file co agent fetch request path st)) =
     submitted st @ (case file_prompt fetch request path of Inl e \<Rightarrow> [] | Inr p \<Rightarrow> [p])"
proof -
  have "submitted st2 = submitted st1" if "accumulate d st1 = (st2, r)" for d st1 st2 r
    using accumulate_keeps [of d st1] that by simp
  then show ?thesis
    by (auto simp: review_file_def Let_def split: sum.splits option.splits prod.splits)
qed

lemma review_loop_submitted:
  "\<exists>ps. submitted (review_loop co agent fetch request paths st) = submitted st @ ps \<and>
        length ps \<le> length paths \<and>
        set ps \<subseteq> {p. \<exists>path \<in> set paths. file_prompt fetch request path = Inr p}"
proof (induction paths arbitrary: st)
  case Nil
  then show ?case by simp
next
  case (Cons path paths)
  obtain st' stop where rf: "review_file co agent fetch request path st = (st', stop)"
    by (cases "review_file co agent fetch request path st")
  define q where "q = (case file_prompt fetch request path of Inl e \<Rightarrow> [] | Inr p \<Rightarrow> [p])"
  have sub: "submitted st' = submitted st @ q"
    using review_file_submitted [of co agent fetch request path st] rf by (simp add: q_def)
  have q: "length q \<le> 1" "set q \<subseteq> {p. file_prompt fetch request path = Inr p}"
    by (auto simp: q_def split: sum.splits)
  show ?case
  proof (cases stop)
    case True
    with rf sub q show ?thesis by (intro exI [of _ q]) auto
  next
    case False
    from Cons.IH [of st'] obtain ps where
      ps: "submitted (review_loop co agent fetch request paths st') = submitted st' @ ps"
          "length ps \<le> length paths"
          "set ps \<subseteq> {p. \<exists>path \<in> set paths. file_prompt fetch request path = Inr p}"
      by blast
    with False rf sub q show ?thesis by (intro exI [of _ "q @ ps"]) auto
  qed
qed

lemma review_loop_append:
  "\<not> openai_failed st \<Longrightarrow>
     review_loop co agent fetch request (xs @ ys) st =
       (if openai_failed (review_loop co agent fetch request xs st)
        then review_loop co agent fetch request xs st
        else review_loop co agent fetch request ys (review_loop co agent fetch request xs st))"
proof (induction xs arbitrary: st)
  case Nil
  then show ?case by simp
next
  case (Cons x xs)
  obtain st' stop where rf: "review_file co agent fetch request x st = (st', stop)"
    by (cases "review_file co agent fetch request x st")
  from review_file_flag [OF Cons.prems, of co agent fetch request x] rf
  have flag: "stop = openai_failed st'" by simp
  show ?case
  proof (cases stop)
    case True
    with rf flag show ?thesis by simp
  next
    case False
    with flag have "\<not> openai_failed st'" by simp
    from Cons.IH [OF this] rf False show ?thesis by simp
  qed
qed

lemma review_file_hard_failure:
  assumes "file_prompt fetch request path = Inr p"
    and "call_openai co agent (submitted st) p = Inl oe"
  shows "review_file co agent fetch request path st =
           (st\<lparr>submitted := submitted st @ [p], openai_failed := True,
               openai_error_message := Some (str_exn oe)\<rparr>, True)"
  using assms by (simp add: review_file_def Let_def)

lemma review_result_fallback:
  "openai_failed st \<Longrightarrow>
     review_result co agent op_id st =
       \<lparr>review_id = op_id, review_status = ''completed'',
        review_message = ''Code review completed with mock fallback due to OpenAI error.'',
        review_findings = [mock_finding],
        review_recommendations = mock_recommendations,
        review_score = JInt 50,
        review_summary = Some (''OpenAI review failed: '' @
           (if unset (openai_error_message st) then ''Unknown error''
            else the (openai_error_message st)) @ ''. Returned mock review.'')\<rparr>"
  by (simp add: review_result_def Let_def)

lemma review_loop_five:
  "length (submitted (review_loop co agent fetch request (take 5 paths) initial_review_state)) \<le> 5"
proof -
  from review_loop_submitted [of co agent fetch request "take 5 paths" initial_review_state]
  obtain ps where "submitted (review_loop co agent fetch request (take 5 paths) initial_review_state) = ps"
    and "length ps \<le> length (take 5 paths)"
    by (auto simp: initial_review_state_def)
  then show ?thesis by simp
qed

lemma review_loop_among:
  "set (submitted (review_loop co agent fetch request paths initial_review_state))
     \<subseteq> {p. \<exists>f \<in> set paths. file_prompt fetch request f = Inr p}"
  using review_loop_submitted [of co agent fetch request paths initial_review_state]
  by (auto simp: initial_review_state_def)

lemma run_submitted_raise [simp]: "run_submitted (raise_run e s sent) = sent"
  by (simp add: raise_run_def)

lemma run_submitted_finish [simp]: "run_submitted (finish_run outcome s sent) = sent"
  by (simp add: finish_run_def split: sum.splits)

lemma run_review_five:
  "length (run_submitted (run_review cfg now gl co request op_id s)) \<le> 5"
  by (simp add: run_review_def Let_def review_loop_five split: sum.splits)

text \<open>What the task does once the agent is built, the analysis succeeded and the tree is listed.\<close>

lemma run_review_reviews:
  assumes "CodeAnalysisAgent_init cfg now = Inr agent"
    and "analysis_execute gl
           \<lparr>ctx_repo_url = Val (req_repo_url request),
            ctx_branch = (case req_branch request of None \<Rightarrow> PyNone | Some b \<Rightarrow> Val b)\<rparr> = Inr r"
    and "status r \<noteq> ''error''"
    and "extract_project_path (req_repo_url request) = Inr project_path"
    and "projects_get gl project_path = Inr project"
    and "repository_tree gl project (req_branch request) = Inr items"
  shows "run_review cfg now gl co request op_id s =
           finish_run
             (set_operation op_id
                (review_json (review_result co (base agent) op_id
                   (review_loop co (base agent) (\<lambda>f. files_get gl project f (req_branch request))
                      request (take 5 (code_files items)) initial_review_state))) s)
             s
             (submitted (review_loop co (base agent)
                (\<lambda>f. files_get gl project f (req_branch request))
                request (take 5 (code_files items)) initial_review_state))"
  using assms by (simp add: run_review_def Let_def)

lemma review_loop_stops:
  assumes five: "paths = pre @ f # post"
    and ok: "\<not> openai_failed (review_loop co agent fetch request pre initial_review_state)"
    and prompt: "file_prompt fetch request f = Inr p"
    and fails: "call_openai co agent
                  (submitted (review_loop co agent fetch request pre initial_review_state)) p = Inl oe"
  shows "review_loop co agent fetch request paths initial_review_state
           = (review_loop co agent fetch request pre initial_review_state)
               \<lparr>submitted := submitted (review_loop co agent fetch request pre initial_review_state) @ [p],
                openai_failed := True, openai_error_message := Some (str_exn oe)\<rparr>"
proof -
  let ?st1 = "review_loop co agent fetch request pre initial_review_state"
  have init: "\<not> openai_failed initial_review_state"
    by (simp add: initial_review_state_def)
  have "review_loop co agent fetch request (f # post) ?st1
      = ?st1\<lparr>submitted := submitted ?st1 @ [p], openai_failed := True,
               openai_error_message := Some (str_exn oe)\<rparr>"
    using review_file_hard_failure [OF prompt fails] by simp
  with review_loop_append [OF init, of co agent fetch request pre "f # post"] ok five
  show ?thesis by simp
qed

lemma set_then_get:
  assumes "store_ok s"
  shows "run_raised (finish_run (set_operation k v s) s sent) = None \<and>
         get_operation k (run_store (finish_run (set_operation k v s) s sent)) = Inr v"
proof -
  from set_operation_ok [OF assms, of k v] obtain s' where
    s': "set_operation k v s = Inr s'" "store_ok s'" "stored s' = (stored s)(k \<mapsto> v)"
    by blast
  from get_operation_stored [OF s'(2), of k] s'(3) have "get_operation k s' = Inr v" by simp
  with s'(1) show ?thesis by (simp add: finish_run_def)
qed

text \<open>
  C6, as the code has it. However the host, the service and the store behave, the task hands
  at most five prompts to the completion service. When the agent is built, the analysis
  succeeds and the tree is listed, every prompt it hands over is the prompt of one of the
  first five code files of that tree. When, in addition, the completion call for one of these
  files raises (the files before it having been processed without such a failure), no later
  file is submitted, the task does not raise, and what is stored under the operation id is
  the fallback: the mock finding as the only finding, the three fixed recommendations and the
  score 50 (whatever the earlier files had contributed is not in it), status
  \<^verbatim>\<open>completed\<close>, and the message and the summary that announce the mock fallback.
\<close>

theorem review_partial_failure:
  "length (run_submitted (run_review cfg now gl co request op_id s)) \<le> 5 \<and>
   (CodeAnalysisAgent_init cfg now = Inr agent \<and>
    analysis_execute gl
       \<lparr>ctx_repo_url = Val (req_repo_url request),
        ctx_branch = (case req_branch request of None \<Rightarrow> PyNone | Some b \<Rightarrow> Val b)\<rparr> = Inr r \<and>
    status r \<noteq> ''error'' \<and>
    extract_project_path (req_repo_url request) = Inr project_path \<and>
    projects_get gl project_path = Inr project \<and>
    repository_tree gl project (req_branch request) = Inr items \<longrightarrow>
      set (run_submitted (run_review cfg now gl co request op_id s))
        \<subseteq> {p. \<exists>f \<in> set (take 5 (code_files items)).
               file_prompt (\<lambda>f. files_get gl project f (req_branch request)) request f = Inr p} \<and>
      (code_files items = pre @ failing # post \<and> length pre < 5 \<and>
       \<not> openai_failed (review_loop co (base agent)
            (\<lambda>f. files_get gl project f (req_branch request)) request pre initial_review_state) \<and>
       file_prompt (\<lambda>f. files_get gl project f (req_branch request)) request failing = Inr p \<and>
       call_openai co (base agent)
         (submitted (review_loop co (base agent)
            (\<lambda>f. files_get gl project f (req_branch request)) request pre initial_review_state)) p
         = Inl oe \<and>
       store_ok s \<longrightarrow>
         run_submitted (run_review cfg now gl co request op_id s)
           = submitted (review_loop co (base agent)
               (\<lambda>f. files_get gl project f (req_branch request)) request pre
               initial_review_state) @ [p] \<and>
         run_raised (run_review cfg now gl co request op_id s) = None \<and>
         get_operation op_id (run_store (run_review cfg now gl co request op_id s))
           = Inr (JObj [(''review_id'', JStr op_id),
                        (''status'', JStr ''completed''),
                        (''message'',
                           JStr ''Code review completed with mock fallback due to OpenAI error.''),
                        (''findings'', JArr [mock_finding]),
                        (''recommendations'', JArr mock_recommendations),
                        (''score'', JInt 50),
                        (''summary'',
                           JStr (''OpenAI review failed: '' @
                                 (if str_exn oe = [] then ''Unknown error'' else str_exn oe) @
                                 ''. Returned mock review.''))])))"
proof (intro conjI impI)
  show "length (run_submitted (run_review cfg now gl co request op_id s)) \<le> 5"
    by (rule run_review_five)
next
  assume pre: "CodeAnalysisAgent_init cfg now = Inr agent \<and>
    analysis_execute gl
       \<lparr>ctx_repo_url = Val (req_repo_url request),
        ctx_branch = (case req_branch request of None \<Rightarrow> PyNone | Some b \<Rightarrow> Val b)\<rparr> = Inr r \<and>
    status r \<noteq> ''error'' \<and>
    extract_project_path (req_repo_url request) = Inr project_path \<and>
    projects_get gl project_path = Inr project \<and>
    repository_tree gl project (req_branch request) = Inr items"
  let ?fetch = "\<lambda>f. files_get gl project f (req_branch request)"
  let ?loop = "review_loop co (base agent) ?fetch request"
  from pre have run: "run_review cfg now gl co request op_id s =
      finish_run (set_operation op_id (review_json (review_result co (base agent) op_id
            (?loop (take 5 (code_files items)) initial_review_state))) s) s
        (submitted (?loop (take 5 (code_files items)) initial_review_state))"
    by (intro run_review_reviews) blast+
  show "set (run_submitted (run_review cfg now gl co request op_id s))
        \<subseteq> {p. \<exists>f \<in> set (take 5 (code_files items)). file_prompt ?fetch request f = Inr p}"
    unfolding run by (simp only: run_submitted_finish) (rule review_loop_among)
  assume fail: "code_files items = pre @ failing # post \<and> length pre < 5 \<and>
       \<not> openai_failed (?loop pre initial_review_state) \<and>
       file_prompt ?fetch request failing = Inr p \<and>
       call_openai co (base agent) (submitted (?loop pre initial_review_state)) p = Inl oe \<and>
       store_ok s"
  then have five: "take 5 (code_files items) = pre @ failing # take (4 - length pre) post"
    by (auto simp: take_Cons')
  from fail have ok: "\<not> openai_failed (?loop pre initial_review_state)"
    and prompt: "file_prompt ?fetch request failing = Inr p"
    and fails: "call_openai co (base agent) (submitted (?loop pre initial_review_state)) p = Inl oe"
    and store: "store_ok s"
    by blast+
  let ?st1 = "?loop pre initial_review_state"
  let ?st = "?st1\<lparr>submitted := submitted ?st1 @ [p], openai_failed := True,
               openai_error_message := Some (str_exn oe)\<rparr>"
  have final: "?loop (take 5 (code_files items)) initial_review_state = ?st"
    by (rule review_loop_stops [OF five ok prompt fails])
  have dict: "review_json (review_result co (base agent) op_id ?st)
      = JObj [(''review_id'', JStr op_id),
              (''status'', JStr ''completed''),
              (''message'', JStr ''Code review completed with mock fallback due to OpenAI error.''),
              (''findings'', JArr [mock_finding]),
              (''recommendations'', JArr mock_recommendations),
              (''score'', JInt 50),
              (''summary'',
                 JStr (''OpenAI review failed: '' @
                       (if str_exn oe = [] then ''Unknown error'' else str_exn oe) @
                       ''. Returned mock review.''))]"
    by (simp add: review_result_fallback review_json_def)
  show "run_submitted (run_review cfg now gl co request op_id s)
           = submitted (?loop pre initial_review_state) @ [p]"
    unfolding run final by simp
  show "run_raised (run_review cfg now gl co request op_id s) = None"
    unfolding run final using set_then_get [OF store] by blast
  show "get_operation op_id (run_store (run_review cfg now gl co request op_id s))
           = Inr (JObj [(''review_id'', JStr op_id),
                        (''status'', JStr ''completed''),
                        (''message'',
                           JStr ''Code review completed with mock fallback due to OpenAI error.''),
                        (''findings'', JArr [mock_finding]),
                        (''recommendations'', JArr mock_recommendations),
                        (''score'', JInt 50),
                        (''summary'',
                           JStr (''OpenAI review failed: '' @
                                 (if str_exn oe = [] then ''Unknown error'' else str_exn oe) @
                                 ''. Returned mock review.''))])"
    unfolding run final dict [symmetric] using set_then_get [OF store] by blast
qed

lemmas scenario_defs =
  scenario_items_def scenario_gitlab_def scenario_collaborators_def scenario_request_def
  scenario_config_def scenario_fetch_def code_files_def startswith_def review_file_def
  file_prompt_def bind_def review_prompt_def call_openai_def make_openai_request_def
  BaseAgent_init_def strip_def lstrip_def rstrip_def is_space_def accumulate_def json_get_def
  py_add_def initial_review_state_def Let_def

lemma scenario_fetch_eq:
  "(\<lambda>f. files_get scenario_gitlab () f (req_branch scenario_request)) = scenario_fetch"
  by (simp add: fun_eq_iff scenario_fetch_def scenario_request_def)

lemma scenario_code_files:
  "code_files scenario_items =
     [''src/a.py'', ''src/b.py''] @ ''src/c.py'' # [''src/d.py'', ''src/e.py'', ''src/f.py'', ''src/g.py'']"
  by (simp add: scenario_items_def code_files_def startswith_def)

lemma scenario_first_two:
  "review_loop scenario_collaborators (BaseAgent_init scenario_config 0) scenario_fetch
      scenario_request [''src/a.py'', ''src/b.py''] initial_review_state
   = \<lparr>findings = [JStr ''F1'', JStr ''F2''], recommendations = [], total_score = JInt 14,
      files_reviewed = 2, openai_failed = False, openai_error_message = None,
      submitted =
        [projr (file_prompt scenario_fetch scenario_request ''src/a.py''),
         projr (file_prompt scenario_fetch scenario_request ''src/b.py'')]\<rparr>"
  by (simp add: scenario_defs)

lemma scenario_prompt:
  "file_prompt scenario_fetch scenario_request f
     = Inr (projr (file_prompt scenario_fetch scenario_request f))"
  by (simp add: file_prompt_def bind_def review_prompt_def scenario_fetch_def scenario_gitlab_def
      scenario_request_def)

lemma scenario_third_call:
  "call_openai scenario_collaborators (BaseAgent_init scenario_config 0)
      [projr (file_prompt scenario_fetch scenario_request ''src/a.py''),
       projr (file_prompt scenario_fetch scenario_request ''src/b.py'')] q
     = Inl (Exn OtherError ''quota exceeded'')"
  by (simp add: call_openai_def make_openai_request_def BaseAgent_init_def scenario_config_def
      scenario_collaborators_def)

lemma scenario_analysis:
  "analysis_execute scenario_gitlab scenario_context
     = Inr (projr (analysis_execute scenario_gitlab scenario_context)) \<and>
   status (projr (analysis_execute scenario_gitlab scenario_context)) = ''success''"
  by (simp add: analysis_execute_def analysis_body_def try_except_def bind_def
      extract_project_path_def py_split_def get_project_def analyze_repo_structure_def
      scenario_gitlab_def scenario_context_def format_success_def endswith_def Let_def)

lemma scenario_prerequisites:
  "CodeAnalysisAgent_init scenario_config 0 = Inr scenario_agent"
  "\<lparr>ctx_repo_url = Val (req_repo_url scenario_request),
    ctx_branch = (case req_branch scenario_request of None \<Rightarrow> PyNone | Some b \<Rightarrow> Val b)\<rparr>
     = scenario_context"
  "extract_project_path (req_repo_url scenario_request) = Inr ''group/project''"
  "projects_get scenario_gitlab ''group/project'' = Inr ()"
  "repository_tree scenario_gitlab () (req_branch scenario_request) = Inr scenario_items"
  "base scenario_agent = BaseAgent_init scenario_config 0"
  "store_ok scenario_store"
  by (simp_all add: CodeAnalysisAgent_init_def scenario_agent_def scenario_config_def
      scenario_context_def scenario_request_def scenario_gitlab_def scenario_store_def
      extract_project_path_def py_split_def try_except_def endswith_def Let_def)

theorem review_partial_failure_witness:
  "CodeAnalysisAgent_init scenario_config 0 = Inr scenario_agent \<and>
   analysis_execute scenario_gitlab scenario_context
     = Inr (projr (analysis_execute scenario_gitlab scenario_context)) \<and>
   status (projr (analysis_execute scenario_gitlab scenario_context)) \<noteq> ''error'' \<and>
   extract_project_path (req_repo_url scenario_request) = Inr ''group/project'' \<and>
   projects_get scenario_gitlab ''group/project'' = Inr () \<and>
   repository_tree scenario_gitlab () (req_branch scenario_request) = Inr scenario_items \<and>
   code_files scenario_items =
     [''src/a.py'', ''src/b.py''] @ ''src/c.py'' # [''src/d.py'', ''src/e.py'', ''src/f.py'', ''src/g.py''] \<and>
   length [''src/a.py'', ''src/b.py''] < 5 \<and>
   \<not> openai_failed (review_loop scenario_collaborators (base scenario_agent) scenario_fetch
        scenario_request [''src/a.py'', ''src/b.py''] initial_review_state) \<and>
   file_prompt scenario_fetch scenario_request ''src/c.py''
     = Inr (projr (file_prompt scenario_fetch scenario_request ''src/c.py'')) \<and>
   call_openai scenario_collaborators (base scenario_agent)
      (submitted (review_loop scenario_collaborators (base scenario_agent) scenario_fetch
        scenario_request [''src/a.py'', ''src/b.py''] initial_review_state))
      (projr (file_prompt scenario_fetch scenario_request ''src/c.py''))
     = Inl (Exn OtherError ''quota exceeded'') \<and>
   store_ok scenario_store \<and>
   run_submitted (run_review scenario_config 0 scenario_gitlab scenario_collaborators
      scenario_request ''review_1'' scenario_store)
     = [projr (file_prompt scenario_fetch scenario_request ''src/a.py''),
        projr (file_prompt scenario_fetch scenario_request ''src/b.py''),
        projr (file_prompt scenario_fetch scenario_request ''src/c.py'')] \<and>
   run_raised (run_review scenario_config 0 scenario_gitlab scenario_collaborators
      scenario_request ''review_1'' scenario_store) = None \<and>
   get_operation ''review_1''
      (run_store (run_review scenario_config 0 scenario_gitlab scenario_collaborators
         scenario_request ''review_1'' scenario_store))
     = Inr (JObj [(''review_id'', JStr ''review_1''),
                  (''status'', JStr ''completed''),
                  (''message'', JStr ''Code review completed with mock fallback due to OpenAI error.''),
                  (''findings'', JArr [mock_finding]),
                  (''recommendations'', JArr mock_recommendations),
                  (''score'', JInt 50),
                  (''summary'',
                     JStr ''OpenAI review failed: quota exceeded. Returned mock review.'')])"
proof -
  note pre = scenario_prerequisites
  have h2: "analysis_execute scenario_gitlab
       \<lparr>ctx_repo_url = Val (req_repo_url scenario_request),
        ctx_branch = (case req_branch scenario_request of None \<Rightarrow> PyNone | Some b \<Rightarrow> Val b)\<rparr>
      = Inr (projr (analysis_execute scenario_gitlab scenario_context))"
    and h2': "analysis_execute scenario_gitlab scenario_context
      = Inr (projr (analysis_execute scenario_gitlab scenario_context))"
    and h3: "status (projr (analysis_execute scenario_gitlab scenario_context)) \<noteq> ''error''"
    using scenario_analysis by (simp_all add: pre(2))
  have h9: "\<not> openai_failed (review_loop scenario_collaborators (base scenario_agent)
        (\<lambda>f. files_get scenario_gitlab () f (req_branch scenario_request))
        scenario_request [''src/a.py'', ''src/b.py''] initial_review_state)"
    by (simp only: scenario_fetch_eq pre(6) scenario_first_two) simp
  have h10: "file_prompt (\<lambda>f. files_get scenario_gitlab () f (req_branch scenario_request))
        scenario_request ''src/c.py''
      = Inr (projr (file_prompt scenario_fetch scenario_request ''src/c.py''))"
    by (simp only: scenario_fetch_eq) (rule scenario_prompt)
  have h11: "call_openai scenario_collaborators (base scenario_agent)
      (submitted (review_loop scenario_collaborators (base scenario_agent)
        (\<lambda>f. files_get scenario_gitlab () f (req_branch scenario_request))
        scenario_request [''src/a.py'', ''src/b.py''] initial_review_state))
      (projr (file_prompt scenario_fetch scenario_request ''src/c.py''))
     = Inl (Exn OtherError ''quota exceeded'')"
    by (simp only: scenario_fetch_eq pre(6) scenario_first_two) (simp add: scenario_third_call)
  from review_partial_failure
    [where cfg = scenario_config and now = 0 and gl = scenario_gitlab
       and co = scenario_collaborators and request = scenario_request
       and op_id = "''review_1''" and s = scenario_store and agent = scenario_agent
       and r = "projr (analysis_execute scenario_gitlab scenario_context)"
       and project_path = "''group/project''" and project = "()" and items = scenario_items
       and pre = "[''src/a.py'', ''src/b.py'']" and failing = "''src/c.py''"
       and post = "[''src/d.py'', ''src/e.py'', ''src/f.py'', ''src/g.py'']"
       and p = "projr (file_prompt scenario_fetch scenario_request ''src/c.py'')"
       and oe = "Exn OtherError ''quota exceeded''"]
    pre(1) h2 h3 pre(3) pre(4) pre(5) scenario_code_files h9 h10 h11 pre(7)
  have sent: "run_submitted (run_review scenario_config 0 scenario_gitlab scenario_collaborators
        scenario_request ''review_1'' scenario_store)
      = submitted (review_loop scenario_collaborators (base scenario_agent)
          (\<lambda>f. files_get scenario_gitlab () f (req_branch scenario_request))
          scenario_request [''src/a.py'', ''src/b.py''] initial_review_state) @
        [projr (file_prompt scenario_fetch scenario_request ''src/c.py'')]"
    and raised: "run_raised (run_review scenario_config 0 scenario_gitlab scenario_collaborators
        scenario_request ''review_1'' scenario_store) = None"
    and got: "get_operation ''review_1''
        (run_store (run_review scenario_config 0 scenario_gitlab scenario_collaborators
           scenario_request ''review_1'' scenario_store))
      = Inr (JObj [(''review_id'', JStr ''review_1''),
                  (''status'', JStr ''completed''),
                  (''message'', JStr ''Code review completed with mock fallback due to OpenAI error.''),
                  (''findings'', JArr [mock_finding]),
                  (''recommendations'', JArr mock_recommendations),
                  (''score'', JInt 50),
                  (''summary'',
                     JStr (''OpenAI review failed: '' @
                           (if str_exn (Exn OtherError ''quota exceeded'') = [] then ''Unknown error''
                            else str_exn (Exn OtherError ''quota exceeded'')) @
                           ''. Returned mock review.''))])"
    by simp_all
  have sent': "run_submitted (run_review scenario_config 0 scenario_gitlab scenario_collaborators
        scenario_request ''review_1'' scenario_store)
      = [projr (file_prompt scenario_fetch scenario_request ''src/a.py''),
         projr (file_prompt scenario_fetch scenario_request ''src/b.py''),
         projr (file_prompt scenario_fetch scenario_request ''src/c.py'')]"
    unfolding sent by (simp only: scenario_fetch_eq pre(6) scenario_first_two) simp
  have got': "get_operation ''review_1''
        (run_store (run_review scenario_config 0 scenario_gitlab scenario_collaborators
           scenario_request ''review_1'' scenario_store))
      = Inr (JObj [(''review_id'', JStr ''review_1''),
                  (''status'', JStr ''completed''),
                  (''message'', JStr ''Code review completed with mock fallback due to OpenAI error.''),
                  (''findings'', JArr [mock_finding]),
                  (''recommendations'', JArr mock_recommendations),
                  (''score'', JInt 50),
                  (''summary'',
                     JStr ''OpenAI review failed: quota exceeded. Returned mock review.'')])"
    using got by simp
  have h9': "\<not> openai_failed (review_loop scenario_collaborators (base scenario_agent) scenario_fetch
        scenario_request [''src/a.py'', ''src/b.py''] initial_review_state)"
    using h9 unfolding scenario_fetch_eq .
  have h11': "call_openai scenario_collaborators (base scenario_agent)
      (submitted (review_loop scenario_collaborators (base scenario_agent) scenario_fetch
        scenario_request [''src/a.py'', ''src/b.py''] initial_review_state))
      (projr (file_prompt scenario_fetch scenario_request ''src/c.py''))
     = Inl (Exn OtherError ''quota exceeded'')"
    using h11 unfolding scenario_fetch_eq .
  have len: "length [''src/a.py'', ''src/b.py''] < 5" by simp
  from pre(1) h2' h3 pre(3) pre(4) pre(5) scenario_code_files len h9' scenario_prompt [of "''src/c.py''"]
    h11' pre(7) sent' raised got'
  show ?thesis by blast
qed

text \<open>
  The claim as the specification words it says that the findings of the files reviewed before
  the failure are retained. In the scenario the first two files are reviewed and give the
  findings \<^verbatim>\<open>F1\<close> and \<^verbatim>\<open>F2\<close>, the third call raises, and what is stored and can be polled has
  the mock finding as its only finding: neither \<^verbatim>\<open>F1\<close> nor \<^verbatim>\<open>F2\<close> is in it.
\<close>

theorem review_fallback_discards_findings:
  "findings (review_loop scenario_collaborators (BaseAgent_init scenario_config 0) scenario_fetch
        scenario_request [''src/a.py'', ''src/b.py''] initial_review_state)
     = [JStr ''F1'', JStr ''F2''] \<and>
   get_operation ''review_1''
      (run_store (run_review scenario_config 0 scenario_gitlab scenario_collaborators
         scenario_request ''review_1'' scenario_store))
     = Inr (JObj [(''review_id'', JStr ''review_1''),
                  (''status'', JStr ''completed''),
                  (''message'', JStr ''Code review completed with mock fallback due to OpenAI error.''),
                  (''findings'', JArr [mock_finding]),
                  (''recommendations'', JArr mock_recommendations),
                  (''score'', JInt 50),
                  (''summary'',
                     JStr ''OpenAI review failed: quota exceeded. Returned mock review.'')]) \<and>
   JStr ''F1'' \<notin> set [mock_finding] \<and>
   JStr ''F2'' \<notin> set [mock_finding]"
proof -
  note pre = scenario_prerequisites
  have h2: "analysis_execute scenario_gitlab
       \<lparr>ctx_repo_url = Val (req_repo_url scenario_request),
        ctx_branch = (case req_branch scenario_request of None \<Rightarrow> PyNone | Some b \<Rightarrow> Val b)\<rparr>
      = Inr (projr (analysis_execute scenario_gitlab scenario_context))"
    and h3: "status (projr (analysis_execute scenario_gitlab scenario_context)) \<noteq> ''error''"
    using scenario_analysis by (simp_all add: pre(2))
  have five: "take 5 (code_files scenario_items)
      = [''src/a.py'', ''src/b.py''] @ ''src/c.py'' # [''src/d.py'', ''src/e.py'']"
    by (simp add: scenario_code_files)
  have ok: "\<not> openai_failed (review_loop scenario_collaborators (BaseAgent_init scenario_config 0)
      scenario_fetch scenario_request [''src/a.py'', ''src/b.py''] initial_review_state)"
    by (simp only: scenario_first_two) simp
  have fails: "call_openai scenario_collaborators (BaseAgent_init scenario_config 0)
      (submitted (review_loop scenario_collaborators (BaseAgent_init scenario_config 0)
         scenario_fetch scenario_request [''src/a.py'', ''src/b.py''] initial_review_state))
      (projr (file_prompt scenario_fetch scenario_request ''src/c.py''))
      = Inl (Exn OtherError ''quota exceeded'')"
    by (simp only: scenario_first_two) (simp add: scenario_third_call)
  have failed: "openai_failed (review_loop scenario_collaborators (BaseAgent_init scenario_config 0)
      scenario_fetch scenario_request (take 5 (code_files scenario_items)) initial_review_state)"
    and msg: "openai_error_message (review_loop scenario_collaborators (BaseAgent_init scenario_config 0)
      scenario_fetch scenario_request (take 5 (code_files scenario_items)) initial_review_state)
      = Some ''quota exceeded''"
    unfolding review_loop_stops [OF five ok scenario_prompt fails] by simp_all
  have run: "run_review scenario_config 0 scenario_gitlab scenario_collaborators
        scenario_request ''review_1'' scenario_store
      = finish_run
          (set_operation ''review_1''
             (review_json (review_result scenario_collaborators (base scenario_agent) ''review_1''
                (review_loop scenario_collaborators (base scenario_agent) scenario_fetch
                   scenario_request (take 5 (code_files scenario_items)) initial_review_state)))
             scenario_store)
          scenario_store
          (submitted (review_loop scenario_collaborators (base scenario_agent) scenario_fetch
             scenario_request (take 5 (code_files scenario_items)) initial_review_state))"
    using run_review_reviews [OF pre(1) h2 h3 pre(3) pre(4) pre(5)]
    by (simp only: scenario_fetch_eq)
  have dict: "review_json (review_result scenario_collaborators (BaseAgent_init scenario_config 0)
        ''review_1''
        (review_loop scenario_collaborators (BaseAgent_init scenario_config 0) scenario_fetch
           scenario_request (take 5 (code_files scenario_items)) initial_review_state))
      = JObj [(''review_id'', JStr ''review_1''),
              (''status'', JStr ''completed''),
              (''message'', JStr ''Code review completed with mock fallback due to OpenAI error.''),
              (''findings'', JArr [mock_finding]),
              (''recommendations'', JArr mock_recommendations),
              (''score'', JInt 50),
              (''summary'',
                 JStr ''OpenAI review failed: quota exceeded. Returned mock review.'')]"
    by (simp add: review_result_fallback [OF failed] msg review_json_def)
  have got: "get_operation ''review_1''
      (run_store (run_review scenario_config 0 scenario_gitlab scenario_collaborators
         scenario_request ''review_1'' scenario_store))
     = Inr (JObj [(''review_id'', JStr ''review_1''),
                  (''status'', JStr ''completed''),
                  (''message'', JStr ''Code review completed with mock fallback due to OpenAI error.''),
                  (''findings'', JArr [mock_finding]),
                  (''recommendations'', JArr mock_recommendations),
                  (''score'', JInt 50),
                  (''summary'',
                     JStr ''OpenAI review failed: quota exceeded. Returned mock review.'')])"
    unfolding run pre(6) dict using set_then_get [OF pre(7)] by blast
  have found: "findings (review_loop scenario_collaborators (BaseAgent_init scenario_config 0)
        scenario_fetch scenario_request [''src/a.py'', ''src/b.py''] initial_review_state)
     = [JStr ''F1'', JStr ''F2'']"
    by (simp only: scenario_first_two) simp
  have "JStr ''F1'' \<notin> set [mock_finding]" "JStr ''F2'' \<notin> set [mock_finding]"
    by (simp_all add: mock_finding_def)
  with found got show ?thesis by blast
qed

text \<open>
  The limit of five at work: when the service answers every prompt, five of the seven code
  files of the scenario are submitted, and the review does not fall back.
\<close>

lemma scenario_five_of_seven:
  "length (run_submitted (run_review scenario_config 0 scenario_gitlab scenario_answering
      scenario_request ''review_2'' scenario_store)) = 5 \<and>
   get_operation ''review_2''
      (run_store (run_review scenario_config 0 scenario_gitlab scenario_answering
         scenario_request ''review_2'' scenario_store))
     = Inr (JObj [(''review_id'', JStr ''review_2''),
                  (''status'', JStr ''completed''),
                  (''message'', JStr ''Code review completed''),
                  (''findings'', JArr [JStr ''F1'', JStr ''F1'', JStr ''F1'', JStr ''F1'', JStr ''F1'']),
                  (''recommendations'', JArr []),
                  (''score'', JFloat 8),
                  (''summary'', JStr ''first'')])"
proof -
  note pre = scenario_prerequisites
  have h2: "analysis_execute scenario_gitlab
       \<lparr>ctx_repo_url = Val (req_repo_url scenario_request),
        ctx_branch = (case req_branch scenario_request of None \<Rightarrow> PyNone | Some b \<Rightarrow> Val b)\<rparr>
      = Inr (projr (analysis_execute scenario_gitlab scenario_context))"
    and h3: "status (projr (analysis_execute scenario_gitlab scenario_context)) \<noteq> ''error''"
    using scenario_analysis by (simp_all add: pre(2))
  have loop: "review_loop scenario_answering (BaseAgent_init scenario_config 0) scenario_fetch
        scenario_request (take 5 (code_files scenario_items)) initial_review_state
      = \<lparr>findings = [JStr ''F1'', JStr ''F1'', JStr ''F1'', JStr ''F1'', JStr ''F1''],
         recommendations = [], total_score = JInt 40, files_reviewed = 5,
         openai_failed = False, openai_error_message = None,
         submitted = map (\<lambda>f. projr (file_prompt scenario_fetch scenario_request f))
           [''src/a.py'', ''src/b.py'', ''src/c.py'', ''src/d.py'', ''src/e.py'']\<rparr>"
    by (simp add: scenario_defs scenario_answering_def)
  have run: "run_review scenario_config 0 scenario_gitlab scenario_answering
        scenario_request ''review_2'' scenario_store
      = finish_run
          (set_operation ''review_2''
             (review_json (review_result scenario_answering (base scenario_agent) ''review_2''
                (review_loop scenario_answering (base scenario_agent) scenario_fetch
                   scenario_request (take 5 (code_files scenario_items)) initial_review_state)))
             scenario_store)
          scenario_store
          (submitted (review_loop scenario_answering (base scenario_agent) scenario_fetch
             scenario_request (take 5 (code_files scenario_items)) initial_review_state))"
    using run_review_reviews [OF pre(1) h2 h3 pre(3) pre(4) pre(5)]
    by (simp only: scenario_fetch_eq)
  have dict: "review_json (review_result scenario_answering (BaseAgent_init scenario_config 0)
        ''review_2''
        \<lparr>findings = [JStr ''F1'', JStr ''F1'', JStr ''F1'', JStr ''F1'', JStr ''F1''],
         recommendations = [], total_score = JInt 40, files_reviewed = 5,
         openai_failed = False, openai_error_message = None,
         submitted = map (\<lambda>f. projr (file_prompt scenario_fetch scenario_request f))
           [''src/a.py'', ''src/b.py'', ''src/c.py'', ''src/d.py'', ''src/e.py'']\<rparr>)
      = JObj [(''review_id'', JStr ''review_2''),
              (''status'', JStr ''completed''),
              (''message'', JStr ''Code review completed''),
              (''findings'', JArr [JStr ''F1'', JStr ''F1'', JStr ''F1'', JStr ''F1'', JStr ''F1'']),
              (''recommendations'', JArr []),
              (''score'', JFloat 8),
              (''summary'', JStr ''first'')]"
    by (simp add: review_result_def review_json_def call_openai_def make_openai_request_def
        BaseAgent_init_def scenario_config_def scenario_answering_def strip_def lstrip_def
        rstrip_def is_space_def Let_def)
  show ?thesis
    unfolding run pre(6) loop dict using set_then_get [OF pre(7)] by simp
qed

section \<open>Properties of the agent tasks\<close>









text \<open>
  Some errors of the bodies and what \<open>execute\<close> returns for them: a missing repository URL,
  an analysis that is a list, a pipeline text that is \<^verbatim>\<open>None\<close>, a repository URL that is
  \<^verbatim>\<open>None\<close>.
\<close>

lemma execute_error_examples:
  "analysis_execute gl \<lparr>ctx_repo_url = Absent, ctx_branch = Absent\<rparr>
     = Inr \<lparr>status = ''error'', message = ''Repository URL is required'', data = JNull\<rparr>"
  "pipeline_execute \<lparr>ctx_analysis = Val (JArr [JNull])\<rparr>
     = Inr \<lparr>status = ''error'', message = ''object has no attribute 'get' '', data = JNull\<rparr>"
  "validation_execute gl' \<lparr>ctx_pipeline_yaml = PyNone, ctx_url = Absent, ctx_deploy_to_cloud = Absent\<rparr>
     = Inr \<lparr>status = ''error'', message = '''NoneType' object is not subscriptable'', data = JNull\<rparr>"
  "deployment_execute host cl dagent
      \<lparr>ctx_pipeline_yaml = Val ''stages: [build]'', ctx_url = PyNone, ctx_deploy_to_cloud = Absent\<rparr>
     = Inr \<lparr>status = ''error'', message = '''NoneType' object has no attribute 'split' '',
            data = JNull\<rparr>"
  by (simp_all add: analysis_execute_def analysis_body_def pipeline_execute_def pipeline_body_def
      generate_basic_pipeline_def json_get_def validation_execute_def validation_body_def
      deployment_execute_def deployment_body_def extract_project_path_simple_def
      try_except_def bind_def format_error_def Let_def)

section \<open>Properties of concurrent writers\<close>

text \<open>A caller that runs its two steps without another caller in between does \<open>set_operation\<close>.\<close>

lemma writer_alone_is_set_operation:
  "run_schedule [0, 0] [new_writer k v] s =
     (case set_operation k v s of
        Inl e \<Rightarrow> Inl e
      | Inr s' \<Rightarrow> Inr ([(new_writer k v)\<lparr>writer_at := Finished\<rparr>], s'))"
  by (simp add: writer_step_def new_writer_def set_operation_def write_operations_def
      read_operations_def split: file_content.splits json.splits)

text \<open>
  C2. Two callers write distinct ids into an empty store. When the second reads after the
  first has written, both entries are readable. When the second reads between the read and
  the write of the first, which the lock allows because it is released in between, the entry
  of the first is not readable afterwards: the second wrote back the dict it had read.
\<close>

theorem lost_update_between_read_and_write:
  "run_schedule [0, 0, 1, 1]
      [new_writer ''analyze_1'' (JStr ''A''), new_writer ''review_1'' (JStr ''B'')]
      \<lparr>OPERATIONS_FILE = Missing, writes = 0\<rparr>
     = Inr ([\<lparr>writer_op_id = ''analyze_1'', writer_data = JStr ''A'', writer_at = Finished\<rparr>,
             \<lparr>writer_op_id = ''review_1'', writer_data = JStr ''B'', writer_at = Finished\<rparr>],
            \<lparr>OPERATIONS_FILE = Parsed (JObj [(''analyze_1'', JStr ''A''), (''review_1'', JStr ''B'')]),
             writes = 2\<rparr>) \<and>
   run_schedule [0, 1, 0, 1]
      [new_writer ''analyze_1'' (JStr ''A''), new_writer ''review_1'' (JStr ''B'')]
      \<lparr>OPERATIONS_FILE = Missing, writes = 0\<rparr>
     = Inr ([\<lparr>writer_op_id = ''analyze_1'', writer_data = JStr ''A'', writer_at = Finished\<rparr>,
             \<lparr>writer_op_id = ''review_1'', writer_data = JStr ''B'', writer_at = Finished\<rparr>],
            \<lparr>OPERATIONS_FILE = Parsed (JObj [(''review_1'', JStr ''B'')]), writes = 2\<rparr>) \<and>
   get_operation ''analyze_1''
      \<lparr>OPERATIONS_FILE = Parsed (JObj [(''review_1'', JStr ''B'')]), writes = 2\<rparr> = Inr JNull"
  by (simp add: writer_step_def new_writer_def write_operations_def read_operations_def
      get_operation_def dict_get_def)

section \<open>Properties of the rate-limited queue\<close>

lemma process_queue_head:
  assumes "0 \<le> takes item" "0 \<le> wake_lag item" "0 \<le> sleep_lag item"
  shows "\<exists>c cs. process_queue agent t (item # queue) = c # cs \<and>
           t \<le> call_start c \<and>
           last_request_time agent + min_request_interval agent \<le> call_start c \<and>
           call_start c \<le> call_end c"
  using assms by (auto simp: Let_def)

lemma process_queue_rest:
  "\<exists>c agent'. process_queue agent t (item # queue)
       = c # process_queue agent' (call_end c + 0.1) queue \<and>
     min_request_interval agent' = min_request_interval agent \<and>
     call_returned c = returns item \<and>
     (returns item \<longrightarrow> last_request_time agent' = call_end c)"
  by (auto simp: Let_def)

text \<open>
  What the queue does guarantee, for requests that take no negative time and delays that are
  not negative: the calls are made one at a time, each at least 0.1 seconds after the one
  before it ended, and at least the minimum interval after the one before it ended if that
  one returned.
\<close>

lemma process_queue_spaced:
  assumes "\<forall>item \<in> set queue. 0 \<le> takes item \<and> 0 \<le> wake_lag item \<and> 0 \<le> sleep_lag item"
  shows "spaced 0.1 (process_queue agent t queue) \<and>
         spaced_after_return (min_request_interval agent) (process_queue agent t queue)"
  using assms
proof (induction queue arbitrary: agent t)
  case Nil
  then show ?case by simp
next
  case (Cons item queue)
  from process_queue_rest [of agent t item queue] obtain c agent' where
    step: "process_queue agent t (item # queue) = c # process_queue agent' (call_end c + 0.1) queue"
    and mi: "min_request_interval agent' = min_request_interval agent"
    and ret: "call_returned c = returns item"
    and last: "returns item \<longrightarrow> last_request_time agent' = call_end c"
    by blast
  from Cons.prems have rest: "\<forall>item \<in> set queue. 0 \<le> takes item \<and> 0 \<le> wake_lag item \<and> 0 \<le> sleep_lag item"
    by simp
  note IH = Cons.IH [OF rest, of agent' "call_end c + 0.1"]
  show ?case
  proof (cases queue)
    case Nil
    with step have "process_queue agent t (item # queue) = [c]" by (simp del: process_queue.simps(2))
    then show ?thesis by (simp del: process_queue.simps)
  next
    case (Cons item2 queue2)
    with rest have "0 \<le> takes item2" "0 \<le> wake_lag item2" "0 \<le> sleep_lag item2" by simp_all
    from process_queue_head [OF this, of agent' "call_end c + 0.1" queue2] obtain d ds where
      d: "process_queue agent' (call_end c + 0.1) (item2 # queue2) = d # ds"
      and d1: "call_end c + 0.1 \<le> call_start d"
      and d2: "last_request_time agent' + min_request_interval agent' \<le> call_start d"
      by blast
    from IH d Cons mi have tail: "spaced 0.1 (d # ds)"
      "spaced_after_return (min_request_interval agent) (d # ds)"
      by (simp_all del: process_queue.simps)
    from step d Cons have all: "process_queue agent t (item # queue) = c # d # ds"
      by (simp del: process_queue.simps)
    have "returns item \<longrightarrow> call_end c + min_request_interval agent \<le> call_start d"
      using d2 mi last by auto
    with tail d1 ret show ?thesis
      unfolding all by simp
  qed
qed

text \<open>
  C9. Two requests are queued at time 0 in an agent built at time 0; the first is answered
  with an error after 0.2 seconds, the second returns. The first request starts at 1.0 and
  ends at 1.2; the second starts at 1.3, which is 0.1 seconds after the first ended and 0.3
  seconds after it started, not the minimum interval of 1.0.
\<close>

theorem spacing_lost_after_failed_request:
  "process_queue (BaseAgent_init cfg 0) 0
      [\<lparr>takes = 0.2, returns = False, wake_lag = 0, sleep_lag = 0\<rparr>,
       \<lparr>takes = 0.5, returns = True, wake_lag = 0, sleep_lag = 0\<rparr>]
     = [\<lparr>call_start = 1.0, call_end = 1.2, call_returned = False\<rparr>,
        \<lparr>call_start = 1.3, call_end = 1.8, call_returned = True\<rparr>] \<and>
   \<not> spaced (min_request_interval (BaseAgent_init cfg 0))
       (process_queue (BaseAgent_init cfg 0) 0
          [\<lparr>takes = 0.2, returns = False, wake_lag = 0, sleep_lag = 0\<rparr>,
           \<lparr>takes = 0.5, returns = True, wake_lag = 0, sleep_lag = 0\<rparr>])"
  by (simp add: BaseAgent_init_def Let_def)

end
